theory Spec2Isabelle
  imports Main
begin

section \<open>The call server (call-server.ts)\<close>

text \<open>
  The class \<open>CallServer\<close> keeps two mutable fields, the session table
  \<open>sessions: Map<string, CallSession>\<close> and the set \<open>controlClients: Set<WebSocket>\<close>.
  Every handler of the class is modelled as a function that takes the server state and
  returns the new state together with the list of actions it performed on the outside
  world, in program order: replies on sockets, HTTP responses, console lines, events
  emitted on the server's own emitter and the method calls it makes on a
  \<open>CallSession\<close> object or on a provider module. The results of awaited provider calls
  are inputs of the model.
\<close>

subsection \<open>Data\<close>

type_synonym call_id = string

text \<open>A \<open>WebSocket\<close> object is named by a number; its \<open>readyState\<close> is read from a store.\<close>

type_synonym ws = nat

datatype ready_state = CONNECTING | OPEN | CLOSING | CLOSED

text \<open>A thrown value: \<open>err instanceof Error\<close> with its message, or anything else.\<close>

datatype js_error = Error string | NonError

text \<open>
  The \<open>ServerMessage\<close> objects that the server builds itself, and \<open>SessionMessage\<close> for
  any other message that a session emits on its \<open>message\<close> event.
\<close>

datatype server_message =
    CallStarted call_id string
  | CallRinging call_id
  | ErrorMessage "call_id option" string
  | SessionMessage string

text \<open>
  What the table holds for a call: the arguments \<open>new CallSession(callId, config,
  formattedNumber, goal, context)\<close> was built from. The mutable inside of the object
  belongs to the class \<open>CallSession\<close>; the server reaches it only through method calls.
\<close>

record call_session =
  callId :: call_id
  phoneNumber :: string
  goal :: string
  callContext :: "string option"

datatype server_event =
    EvCallStarted call_id
  | EvCallEnded call_id string
  | EvError js_error

datatype console_level = LOG | WARN | ERROR

datatype http_body =
    ErrorJson string
  | ReceivedJson
  | StatusJson nat nat string
  | Xml string

datatype effect =
    Console console_level string
  | HttpResponse nat http_body
  | WsSend ws server_message
  | WsClose ws nat string
  | Emit server_event
  | PreflightTwilio
  | PreflightDeepgram
  | PreflightElevenLabs string "string option"
  | NewCallSession call_session
  | TwilioInitiateCall string call_id
  | SessionSetCallSid call_session string
  | SessionUpdateStatus call_session string
  | SessionSpeak call_session string
  | SessionHangup call_session
  | SessionInitializeMediaStream call_session ws

record server =
  sessions :: "(call_id \<times> call_session) list"
  controlClients :: "ws list"
  readyState :: "ws \<Rightarrow> ready_state"

text \<open>
  A JavaScript \<open>Map\<close> keeps its keys in insertion order and holds each key once:
  \<open>set\<close> overwrites in place or appends, \<open>delete\<close> removes, \<open>size\<close> is the length.
\<close>

fun mapSet :: "'k \<Rightarrow> 'v \<Rightarrow> ('k \<times> 'v) list \<Rightarrow> ('k \<times> 'v) list" where
  "mapSet k v [] = [(k, v)]"
| "mapSet k v ((k', v') # m) = (if k' = k then (k, v) # m else (k', v') # mapSet k v m)"

fun mapDelete :: "'k \<Rightarrow> ('k \<times> 'v) list \<Rightarrow> ('k \<times> 'v) list" where
  "mapDelete k [] = []"
| "mapDelete k ((k', v') # m) = (if k' = k then mapDelete k m else (k', v') # mapDelete k m)"

definition mapGet :: "('k \<times> 'v) list \<Rightarrow> 'k \<Rightarrow> 'v option" where
  "mapGet m k = map_of m k"

definition mapHas :: "('k \<times> 'v) list \<Rightarrow> 'k \<Rightarrow> bool" where
  "mapHas m k = (mapGet m k \<noteq> None)"

text \<open>A JavaScript \<open>Set\<close>: \<open>add\<close> appends unless present, \<open>delete\<close> removes.\<close>

definition setAdd :: "'a \<Rightarrow> 'a list \<Rightarrow> 'a list" where
  "setAdd x xs = (if x \<in> set xs then xs else xs @ [x])"

definition setDelete :: "'a \<Rightarrow> 'a list \<Rightarrow> 'a list" where
  "setDelete x xs = filter (\<lambda>y. y \<noteq> x) xs"

text \<open>Truthiness of a value that is a string, \<open>undefined\<close> or \<open>null\<close>.\<close>

fun truthy :: "string option \<Rightarrow> bool" where
  "truthy None = False"
| "truthy (Some s) = (s \<noteq> [])"

subsection \<open>broadcastToControl\<close>

text \<open>
  \<^verbatim>\<open>for (const client of this.controlClients) {
    if (client.readyState === WebSocket.OPEN) { client.send(data); } }\<close>
\<close>

fun broadcastLoop :: "(ws \<Rightarrow> ready_state) \<Rightarrow> server_message \<Rightarrow> ws list \<Rightarrow> effect list" where
  "broadcastLoop rs msg [] = []"
| "broadcastLoop rs msg (client # rest) =
     (if rs client = OPEN then WsSend client msg # broadcastLoop rs msg rest
      else broadcastLoop rs msg rest)"

definition broadcastToControl :: "server \<Rightarrow> server_message \<Rightarrow> effect list" where
  "broadcastToControl s msg = broadcastLoop (readyState s) msg (controlClients s)"

text \<open>The messages that reach one control client, in the order they were sent.\<close>

fun received :: "ws \<Rightarrow> effect list \<Rightarrow> server_message list" where
  "received c [] = []"
| "received c (WsSend c' m # es) = (if c' = c then m # received c es else received c es)"
| "received c (_ # es) = received c es"

subsection \<open>Configuration and the provider module (providers/twilio.ts)\<close>

record 'cfg callServerOptions =
  port :: nat
  publicUrl :: string
  config :: 'cfg

text \<open>
  The functions imported from the telephony provider module are parameters of the model.
  \<open>formatPhoneNumber\<close> may throw.
\<close>

record 'cfg twilio =
  validateWebhookSignature :: "'cfg \<Rightarrow> string \<Rightarrow> string \<Rightarrow> (string \<times> string) list \<Rightarrow> bool"
  parseWebhookBody :: "string \<Rightarrow> (string \<times> string) list"
  generateErrorTwiml :: "string \<Rightarrow> string"
  generateMediaStreamsTwiml :: "'cfg \<Rightarrow> call_id \<Rightarrow> string"
  formatPhoneNumber :: "string \<Rightarrow> js_error + string"

subsection \<open>GET /status\<close>

definition handleStatusCheck :: "'cfg callServerOptions \<Rightarrow> server \<Rightarrow> server \<times> effect list" where
  "handleStatusCheck opts s =
     (s, [HttpResponse 200
            (StatusJson (length (sessions s)) (length (controlClients s)) (publicUrl opts))])"

definition activeCalls :: "server \<Rightarrow> nat" where
  "activeCalls s = length (sessions s)"

subsection \<open>The telephony webhooks\<close>

text \<open>
  A webhook request: the \<open>x-twilio-signature\<close> header, \<open>req.url\<close>, the \<open>callId\<close> query
  parameter (\<open>url.searchParams.get\<close>, \<open>null\<close> when absent) and the chunks of the body in
  the order of the \<open>data\<close> events.
\<close>

record webhook_request =
  signatureHeader :: "string option"
  reqUrl :: string
  callIdParam :: "string option"
  chunks :: "string list"

definition MAX_BODY_SIZE :: nat where
  "MAX_BODY_SIZE = 1024 * 1024"

text \<open>
  The \<open>data\<close> handler: the body grows chunk by chunk; once the size passes the cap the
  request is answered 413 and destroyed, so \<open>end\<close> never fires (\<open>None\<close>).
\<close>

fun readBody :: "string \<Rightarrow> nat \<Rightarrow> string list \<Rightarrow> string option" where
  "readBody body bodySize [] = Some body"
| "readBody body bodySize (chunk # rest) =
     (if bodySize + length chunk > MAX_BODY_SIZE then None
      else readBody (body @ chunk) (bodySize + length chunk) rest)"

definition handleTwilioVoice ::
  "'cfg callServerOptions \<Rightarrow> 'cfg twilio \<Rightarrow> server \<Rightarrow> webhook_request \<Rightarrow> server \<times> effect list" where
  "handleTwilioVoice opts api s req =
     (case readBody [] 0 (chunks req) of
        None \<Rightarrow> (s, [HttpResponse 413 (ErrorJson ''Request body too large'')])
      | Some body \<Rightarrow>
          let webhookUrl = publicUrl opts @ reqUrl req;
              params = parseWebhookBody api body
          in if (case signatureHeader req of
                   None \<Rightarrow> False
                 | Some signature \<Rightarrow>
                     signature \<noteq> [] \<and>
                     \<not> validateWebhookSignature api (config opts) signature webhookUrl params)
             then (s, [Console WARN ''[Twilio] Invalid webhook signature'',
                       HttpResponse 403 (ErrorJson ''Invalid signature'')])
             else (case callIdParam req of
                     None \<Rightarrow>
                       (s, [HttpResponse 200 (Xml (generateErrorTwiml api
                              ''Sorry, this call cannot be connected. Please try again later.''))])
                   | Some cid \<Rightarrow>
                       if cid = [] \<or> \<not> mapHas (sessions s) cid
                       then (s, [HttpResponse 200 (Xml (generateErrorTwiml api
                              ''Sorry, this call cannot be connected. Please try again later.''))])
                       else (s, [HttpResponse 200
                              (Xml (generateMediaStreamsTwiml api (config opts) cid))])))"

definition handleTwilioStatus ::
  "'cfg callServerOptions \<Rightarrow> 'cfg twilio \<Rightarrow> server \<Rightarrow> webhook_request \<Rightarrow> server \<times> effect list" where
  "handleTwilioStatus opts api s req =
     (case readBody [] 0 (chunks req) of
        None \<Rightarrow> (s, [HttpResponse 413 (ErrorJson ''Request body too large'')])
      | Some body \<Rightarrow>
          let webhookUrl = publicUrl opts @ reqUrl req;
              params = parseWebhookBody api body
          in if (case signatureHeader req of
                   None \<Rightarrow> False
                 | Some signature \<Rightarrow>
                     signature \<noteq> [] \<and>
                     \<not> validateWebhookSignature api (config opts) signature webhookUrl params)
             then (s, [Console WARN ''[Twilio] Invalid webhook signature'',
                       HttpResponse 403 (ErrorJson ''Invalid signature'')])
             else
               let session = (case callIdParam req of
                                None \<Rightarrow> None
                              | Some cid \<Rightarrow> if cid = [] then None else mapGet (sessions s) cid)
               in (s,
                   (case session of
                      None \<Rightarrow> []
                    | Some session \<Rightarrow>
                        (case map_of params ''CallStatus'' of
                           None \<Rightarrow> []
                         | Some callStatus \<Rightarrow>
                             if callStatus = ''ringing''
                             then SessionUpdateStatus session ''ringing'' #
                                  broadcastToControl s (CallRinging (callId session))
                             else if callStatus = ''in-progress'' then []
                             else if callStatus = ''completed'' \<or> callStatus = ''busy'' \<or>
                                     callStatus = ''failed'' \<or> callStatus = ''no-answer''
                             then [SessionUpdateStatus session callStatus]
                             else []))
                   @ [HttpResponse 200 ReceivedJson]))"

subsection \<open>initiateCallInternal\<close>

record preflight_result =
  ok :: bool
  message :: string

text \<open>
  What the awaited calls give: \<open>await Promise.all([...])\<close> over the three preflight
  checks (rejected, or the three results), \<open>randomUUID()\<close>, and
  \<open>await initiateCall(...)\<close> (rejected, or the provider's \<open>callSid\<close>).
  \<open>initiateCallInternal\<close> below is the run in which no other handler of the server
  runs while it waits; \<open>setCallSid\<close>, the listeners of \<open>call_started\<close> and \<open>send\<close>
  on an open socket are taken not to throw.
\<close>

record call_env =
  preflights :: "js_error + (preflight_result \<times> preflight_result \<times> preflight_result)"
  uuid :: call_id
  originate :: "js_error + string"

definition initiateCallInternal ::
  "'cfg twilio \<Rightarrow> call_env \<Rightarrow> server \<Rightarrow> string \<Rightarrow> string \<Rightarrow> string option
     \<Rightarrow> server \<times> effect list \<times> (js_error + call_id)" where
  "initiateCallInternal api env s phone goal' context' =
     (let started = [PreflightTwilio, PreflightDeepgram, PreflightElevenLabs goal' context']
      in (case preflights env of
           Inl err \<Rightarrow> (s, started, Inl err)
         | Inr (twilioPreflight, deepgramPreflight, elevenLabsPreflight) \<Rightarrow>
             (case find (\<lambda>result. \<not> ok result)
                     [twilioPreflight, deepgramPreflight, elevenLabsPreflight] of
                Some failedPreflight \<Rightarrow> (s, started, Inl (Error (message failedPreflight)))
              | None \<Rightarrow>
                  let logs = [Console LOG (''[Preflight] '' @ message twilioPreflight),
                              Console LOG (''[Preflight] '' @ message deepgramPreflight),
                              Console LOG (''[Preflight] '' @ message elevenLabsPreflight)]
                  in (case formatPhoneNumber api phone of
                       Inl err \<Rightarrow> (s, started @ logs, Inl err)
                     | Inr formattedNumber \<Rightarrow>
                         let session = \<lparr>callId = uuid env, phoneNumber = formattedNumber,
                                        goal = goal', callContext = context'\<rparr>;
                             s1 = s\<lparr>sessions := mapSet (uuid env) session (sessions s)\<rparr>;
                             placed = started @ logs @
                                      [NewCallSession session,
                                       TwilioInitiateCall formattedNumber (uuid env)]
                         in (case originate env of
                              Inr callSid \<Rightarrow>
                                (s1,
                                 placed @
                                 [SessionSetCallSid session callSid,
                                  Emit (EvCallStarted (uuid env))] @
                                 broadcastToControl s1 (CallStarted (uuid env) callSid),
                                 Inr (uuid env))
                            | Inl err \<Rightarrow>
                                (s1\<lparr>sessions := mapDelete (uuid env) (sessions s1)\<rparr>,
                                 placed, Inl err))))))"

text \<open>The listeners that \<open>initiateCallInternal\<close> puts on a session.\<close>

definition onSessionMessage :: "server \<Rightarrow> server_message \<Rightarrow> server \<times> effect list" where
  "onSessionMessage s msg = (s, broadcastToControl s msg)"

definition onSessionEnded :: "server \<Rightarrow> call_id \<Rightarrow> string \<Rightarrow> server \<times> effect list" where
  "onSessionEnded s cid state =
     (s\<lparr>sessions := mapDelete cid (sessions s)\<rparr>, [Emit (EvCallEnded cid state)])"

text \<open>
  The messages that sessions emit one after the other; each is forwarded when it is
  emitted, in the server state it finds then.
\<close>

fun onSessionMessages :: "(server \<times> server_message) list \<Rightarrow> effect list" where
  "onSessionMessages [] = []"
| "onSessionMessages ((s, msg) # rest) = snd (onSessionMessage s msg) @ onSessionMessages rest"

subsection \<open>The control plane\<close>

text \<open>
  The parsed \<open>ClientMessage\<close>: its three types, and \<open>MsgOther\<close> for a parsed value
  whose \<open>type\<close> is none of them, which no case of the switch takes.
\<close>

datatype client_message =
    MsgInitiateCall string string "string option"
  | MsgSpeak call_id string
  | MsgHangup call_id
  | MsgOther

definition handleControlConnection :: "server \<Rightarrow> ws \<Rightarrow> server \<times> effect list" where
  "handleControlConnection s w =
     (s\<lparr>controlClients := setAdd w (controlClients s)\<rparr>, [Console LOG ''[Control] Client connected''])"

definition controlOnClose :: "server \<Rightarrow> ws \<Rightarrow> server \<times> effect list" where
  "controlOnClose s w =
     (s\<lparr>controlClients := setDelete w (controlClients s)\<rparr>,
      [Console LOG ''[Control] Client disconnected''])"

definition controlOnError :: "server \<Rightarrow> ws \<Rightarrow> server \<times> effect list" where
  "controlOnError s w =
     (s\<lparr>controlClients := setDelete w (controlClients s)\<rparr>, [Console ERROR ''[Control] Error:''])"

text \<open>
  \<open>settled\<close> is how the awaited \<open>session.speak\<close> or \<open>session.hangup\<close> ends: \<open>None\<close> when
  it resolves, the thrown value when it rejects. The third component of the result is
  the value \<open>handleControlMessage\<close> throws, if it throws.
\<close>

definition handleControlMessage ::
  "'cfg twilio \<Rightarrow> call_env \<Rightarrow> js_error option \<Rightarrow> server \<Rightarrow> ws \<Rightarrow> client_message
     \<Rightarrow> server \<times> effect list \<times> js_error option" where
  "handleControlMessage api env settled s w msg =
     (case msg of
        MsgInitiateCall phone goal' context' \<Rightarrow>
          (case initiateCallInternal api env s phone goal' context' of
             (s', effs, Inl err) \<Rightarrow> (s', effs, Some err)
           | (s', effs, Inr cid) \<Rightarrow> (s', effs, None))
      | MsgSpeak cid text \<Rightarrow>
          (case mapGet (sessions s) cid of
             Some session \<Rightarrow> (s, [SessionSpeak session text], settled)
           | None \<Rightarrow> (s, [WsSend w (ErrorMessage (Some cid) ''Call not found'')], None))
      | MsgHangup cid \<Rightarrow>
          (case mapGet (sessions s) cid of
             Some session \<Rightarrow> (s, [SessionHangup session], settled)
           | None \<Rightarrow> (s, [], None))
      | MsgOther \<Rightarrow> (s, [], None))"

text \<open>
  The \<open>message\<close> listener of a control socket: \<open>JSON.parse\<close> throws (\<open>Inl\<close>) or gives a
  \<open>ClientMessage\<close>; whatever is thrown inside is answered on the same socket.
\<close>

fun errorText :: "js_error \<Rightarrow> string" where
  "errorText (Error m) = m"
| "errorText NonError = ''Invalid message''"

definition controlOnMessage ::
  "'cfg twilio \<Rightarrow> call_env \<Rightarrow> js_error option \<Rightarrow> server \<Rightarrow> ws \<Rightarrow> js_error + client_message
     \<Rightarrow> server \<times> effect list" where
  "controlOnMessage api env settled s w parsed =
     (case parsed of
        Inl err \<Rightarrow> (s, [WsSend w (ErrorMessage None (errorText err))])
      | Inr msg \<Rightarrow>
          (case handleControlMessage api env settled s w msg of
             (s', effs, None) \<Rightarrow> (s', effs)
           | (s', effs, Some err) \<Rightarrow> (s', effs @ [WsSend w (ErrorMessage None (errorText err))])))"

subsection \<open>The media plane\<close>

text \<open>
  A message on a media socket: \<open>JSON.parse\<close> or the property reads throw
  (\<open>Unparseable\<close>), or the message has an \<open>event\<close> and, possibly,
  \<open>start.customParameters.callId\<close> (a string, as the provider sends custom parameters).
\<close>

datatype media_message = Unparseable | MediaMessage "string option" "string option"

text \<open>
  The closure variable \<open>sessionInitialized\<close> of one connection is threaded through its
  \<open>message\<close> listener. The listener reads the session table and does not write it.
\<close>

definition mediaOnMessage ::
  "server \<Rightarrow> ws \<Rightarrow> bool \<Rightarrow> media_message \<Rightarrow> bool \<times> effect list" where
  "mediaOnMessage s w sessionInitialized data =
     (case data of
        Unparseable \<Rightarrow> (sessionInitialized, [Console ERROR ''[Media] Error parsing message:''])
      | MediaMessage event cid \<Rightarrow>
          if event = Some ''start'' \<and> \<not> sessionInitialized
          then
            let startLog = Console LOG (''[Media] Received start event, callId: '' @
                             (case cid of None \<Rightarrow> ''undefined'' | Some c \<Rightarrow> c))
            in if \<not> truthy cid
               then (sessionInitialized,
                     [startLog,
                      Console ERROR ''[Media] No callId in start event customParameters'',
                      WsClose w 1008 ''Missing callId''])
               else (case mapGet (sessions s) (case cid of None \<Rightarrow> [] | Some c \<Rightarrow> c) of
                       None \<Rightarrow>
                         (sessionInitialized,
                          [startLog,
                           Console ERROR (''[Media] No session found for call '' @
                             (case cid of None \<Rightarrow> [] | Some c \<Rightarrow> c)),
                           WsClose w 1008 ''Call not found''])
                     | Some session \<Rightarrow>
                         (True,
                          [startLog,
                           Console LOG ''[Media] Found session, initializing media stream...'',
                           SessionInitializeMediaStream session w]))
          else (sessionInitialized, []))"

text \<open>
  The two ways the promise of \<open>session.initializeMediaStream\<close> settles. The value
  emitted with \<open>error\<close> is the thrown one, wrapped into an \<open>Error\<close> when it is none.
\<close>

definition mediaInitResolved :: "server \<Rightarrow> server \<times> effect list" where
  "mediaInitResolved s = (s, [Console LOG ''[Media] Media stream initialized successfully''])"

definition mediaInitRejected :: "server \<Rightarrow> ws \<Rightarrow> call_id \<Rightarrow> js_error \<Rightarrow> server \<times> effect list" where
  "mediaInitRejected s w cid err =
     (s\<lparr>sessions := mapDelete cid (sessions s)\<rparr>,
      [Console ERROR ''[Media] Failed to initialize:'',
       Emit (EvError err),
       WsClose w 1011 ''Failed to initialize''])"

text \<open>
  The messages of one media connection, in arrival order. Other handlers run between two
  messages, so each message comes with the server state it finds.
\<close>

fun mediaConnection :: "ws \<Rightarrow> bool \<Rightarrow> (server \<times> media_message) list \<Rightarrow> effect list" where
  "mediaConnection w sessionInitialized [] = []"
| "mediaConnection w sessionInitialized ((s, data) # rest) =
     (case mediaOnMessage s w sessionInitialized data of
        (sessionInitialized', effs) \<Rightarrow> effs @ mediaConnection w sessionInitialized' rest)"

definition handleMediaStreamConnection :: "ws \<Rightarrow> (server \<times> media_message) list \<Rightarrow> effect list" where
  "handleMediaStreamConnection w msgs = mediaConnection w False msgs"

section \<open>The call session (call-session.ts)\<close>

text \<open>
  The class \<open>CallSession\<close> is not among the sources at hand; the server above only calls
  its methods. Its state machine is written down here from section 4.3 of the
  specification, as far as the properties below need it.
\<close>

datatype call_status = Created | Placing | Ringing | Connected | Ended

record session_state =
  status :: call_status
  callSid :: "string option"
  mediaAttached :: bool
  mediaInitialized :: bool

datatype session_output =
    ProviderHangup "string option"
  | BridgeTornDown
  | EndedEvent call_status

text \<open>
  Modelled from the spec: the constructor of \<open>CallSession\<close> (call-session.ts is missing).
  "created: session object exists in the table; provider has not yet been asked to place
  the call."
\<close>

definition newSession :: session_state where
  "newSession = \<lparr>status = Created, callSid = None, mediaAttached = False, mediaInitialized = False\<rparr>"

text \<open>
  Modelled from the spec: the common end of every path into \<open>ended\<close> of the missing
  \<open>CallSession\<close>. "Reaching ended always (a) tears down the audio bridge, releasing any
  provider-streaming resources, ... (c) emits exactly one completion event carrying the
  final recorded state."
\<close>

definition reachEnded :: "session_state \<Rightarrow> session_state \<times> session_output list" where
  "reachEnded cs = (cs\<lparr>status := Ended, mediaAttached := False\<rparr>, [BridgeTornDown, EndedEvent Ended])"

text \<open>
  Modelled from the spec: \<open>CallSession.hangup\<close> (missing). "hangup() -- idempotent; if
  already ended, returns immediately; otherwise instructs the telephony adapter to
  terminate the provider call, tears down the bridge, and transitions to ended."
\<close>

definition hangup :: "session_state \<Rightarrow> session_state \<times> session_output list" where
  "hangup cs =
     (if status cs = Ended then (cs, [])
      else (fst (reachEnded cs), ProviderHangup (callSid cs) # snd (reachEnded cs)))"

text \<open>
  Modelled from the spec: \<open>CallSession.updateStatus\<close> (missing). "applies a telephony
  status-webhook value to the state machine, ignoring status values that do not represent
  a valid transition from the current state (e.g., a stale ringing received after
  connected must not regress state)"; the transitions are "created, placing, ringing,
  connected, ended" in this order, with the failure path "created|placing|ringing to
  ended(failed|busy|no-answer)", and ended is "reached via ... a terminal status webhook
  (completed, busy, failed, no-answer)"; "ended is terminal; no transitions leave it".
\<close>

definition updateStatus :: "string \<Rightarrow> session_state \<Rightarrow> session_state \<times> session_output list" where
  "updateStatus st cs =
     (if status cs = Ended then (cs, [])
      else if st = ''ringing''
      then (if status cs = Created \<or> status cs = Placing then (cs\<lparr>status := Ringing\<rparr>, [])
            else (cs, []))
      else if st = ''completed'' then reachEnded cs
      else if st = ''busy'' \<or> st = ''failed'' \<or> st = ''no-answer''
      then (if status cs = Connected then (cs, []) else reachEnded cs)
      else (cs, []))"

text \<open>
  Modelled from the spec: \<open>CallSession.initializeMediaStream\<close> (missing). "attaches the
  media-plane connection, begins the audio bridge ... Fails if called more than once or
  after the session has ended."; "connected: set when the media-plane audio bridge
  actually attaches". A failed call leaves the state as it was, apart from having been
  called.
\<close>

definition initializeMediaStream :: "session_state \<Rightarrow> session_state \<times> session_output list" where
  "initializeMediaStream cs =
     (if mediaInitialized cs \<or> status cs = Ended then (cs\<lparr>mediaInitialized := True\<rparr>, [])
      else (cs\<lparr>status := Connected, mediaAttached := True, mediaInitialized := True\<rparr>, []))"

text \<open>
  Modelled from the spec: \<open>CallSession.setCallSid\<close> (missing). "records the provider call
  reference once known"; "placing ... set once the telephony provider's origination call
  returns a provider call reference".
\<close>

definition setCallSid :: "string \<Rightarrow> session_state \<Rightarrow> session_state \<times> session_output list" where
  "setCallSid sid cs =
     (cs\<lparr>callSid := Some sid, status := (if status cs = Created then Placing else status cs)\<rparr>, [])"

text \<open>
  Modelled from the spec: \<open>CallSession.speak\<close> (missing). "requests synthesis of text ...
  and plays the resulting audio into the live call"; it is no transition of the state
  machine.
\<close>

definition speak :: "string \<Rightarrow> session_state \<Rightarrow> session_state \<times> session_output list" where
  "speak text cs = (cs, [])"

text \<open>The method calls on one session, and a history of them.\<close>

datatype session_call =
    CallHangup
  | CallUpdateStatus string
  | CallInitializeMediaStream
  | CallSetCallSid string
  | CallSpeak string

fun sessionStep :: "session_call \<Rightarrow> session_state \<Rightarrow> session_state \<times> session_output list" where
  "sessionStep CallHangup cs = hangup cs"
| "sessionStep (CallUpdateStatus st) cs = updateStatus st cs"
| "sessionStep CallInitializeMediaStream cs = initializeMediaStream cs"
| "sessionStep (CallSetCallSid sid) cs = setCallSid sid cs"
| "sessionStep (CallSpeak text) cs = speak text cs"

fun sessionRun :: "session_state \<Rightarrow> session_call list \<Rightarrow> session_state \<times> session_output list" where
  "sessionRun cs [] = (cs, [])"
| "sessionRun cs (c # calls) =
     (case sessionStep c cs of
        (cs', out) \<Rightarrow> (case sessionRun cs' calls of (cs'', out') \<Rightarrow> (cs'', out @ out')))"

fun isEndedEvent :: "session_output \<Rightarrow> bool" where
  "isEndedEvent (EndedEvent _) = True"
| "isEndedEvent _ = False"

definition endedEvents :: "session_output list \<Rightarrow> nat" where
  "endedEvents out = length (filter isEndedEvent out)"

text \<open>The method call on a session, if any, that an action of the server is.\<close>

fun sessionCallOf :: "effect \<Rightarrow> session_call option" where
  "sessionCallOf (SessionSetCallSid _ sid) = Some (CallSetCallSid sid)"
| "sessionCallOf (SessionUpdateStatus _ st) = Some (CallUpdateStatus st)"
| "sessionCallOf (SessionSpeak _ text) = Some (CallSpeak text)"
| "sessionCallOf (SessionHangup _) = Some CallHangup"
| "sessionCallOf (SessionInitializeMediaStream _ _) = Some CallInitializeMediaStream"
| "sessionCallOf _ = None"

definition sessionCalls :: "effect list \<Rightarrow> session_call list" where
  "sessionCalls effs = List.map_filter sessionCallOf effs"

section \<open>Concrete inputs\<close>

definition exampleTwilio :: "unit twilio" where
  "exampleTwilio =
     \<lparr>validateWebhookSignature = (\<lambda>cfg signature url params. signature = ''good''),
      parseWebhookBody = (\<lambda>body. [(''CallStatus'', body)]),
      generateErrorTwiml = (\<lambda>text. ''<Say>'' @ text @ ''</Say>''),
      generateMediaStreamsTwiml = (\<lambda>cfg cid. ''<Stream>'' @ cid @ ''</Stream>''),
      formatPhoneNumber = (\<lambda>phone. Inr (''+'' @ phone))\<rparr>"

definition exampleOptions :: "unit callServerOptions" where
  "exampleOptions = \<lparr>port = 3000, publicUrl = ''https://example.test'', config = ()\<rparr>"

definition exampleSession :: call_session where
  "exampleSession = \<lparr>callId = ''c1'', phoneNumber = ''+15551234567'', goal = ''ask'', callContext = None\<rparr>"

definition exampleServer :: server where
  "exampleServer =
     \<lparr>sessions = [(''c1'', exampleSession)],
      controlClients = [1, 2],
      readyState = (\<lambda>w. if w = 2 then CLOSING else OPEN)\<rparr>"

definition healthy :: preflight_result where
  "healthy = \<lparr>ok = True, message = ''ready''\<rparr>"

definition unhealthy :: preflight_result where
  "unhealthy = \<lparr>ok = False, message = ''Deepgram preflight failed''\<rparr>"

definition exampleEnv :: call_env where
  "exampleEnv = \<lparr>preflights = Inr (healthy, healthy, healthy), uuid = ''c2'', originate = Inr ''CA1''\<rparr>"

definition failingEnv :: call_env where
  "failingEnv = \<lparr>preflights = Inr (healthy, unhealthy, healthy), uuid = ''c2'', originate = Inr ''CA1''\<rparr>"

definition brokenEnv :: call_env where
  "brokenEnv = \<lparr>preflights = Inr (healthy, healthy, healthy), uuid = ''c2'',
                 originate = Inl (Error ''provider rejected the call'')\<rparr>"

text \<open>The status codes of the \<open>close\<close> calls among some actions, and their reasons.\<close>

fun closeCodes :: "effect list \<Rightarrow> nat list" where
  "closeCodes [] = []"
| "closeCodes (WsClose w code reason # es) = code # closeCodes es"
| "closeCodes (_ # es) = closeCodes es"

fun closeReasons :: "effect list \<Rightarrow> string list" where
  "closeReasons [] = []"
| "closeReasons (WsClose w code reason # es) = reason # closeReasons es"
| "closeReasons (_ # es) = closeReasons es"

text \<open>The hand-overs of a media socket to a session among some actions.\<close>

fun isMediaInit :: "effect \<Rightarrow> bool" where
  "isMediaInit (SessionInitializeMediaStream session w) = True"
| "isMediaInit _ = False"

fun isEmit :: "effect \<Rightarrow> bool" where
  "isEmit (Emit ev) = True"
| "isEmit _ = False"

fun isSend :: "effect \<Rightarrow> bool" where
  "isSend (WsSend w msg) = True"
| "isSend _ = False"

definition unsignedRequest :: webhook_request where
  "unsignedRequest =
     \<lparr>signatureHeader = None, reqUrl = ''/twilio/status?callId=c1'',
      callIdParam = Some ''c1'', chunks = [''ringing'']\<rparr>"

definition forgedRequest :: webhook_request where
  "forgedRequest =
     \<lparr>signatureHeader = Some ''forged'', reqUrl = ''/twilio/status?callId=c1'',
      callIdParam = Some ''c1'', chunks = [''ringing'']\<rparr>"

definition inProgressRequest :: webhook_request where
  "inProgressRequest =
     \<lparr>signatureHeader = Some ''good'', reqUrl = ''/twilio/status?callId=c1'',
      callIdParam = Some ''c1'', chunks = [''in-'', ''progress'']\<rparr>"

text \<open>A provider module whose validator accepts no signature at all.\<close>

definition rejectingTwilio :: "unit twilio" where
  "rejectingTwilio =
     exampleTwilio\<lparr>validateWebhookSignature := (\<lambda>cfg signature url params. False)\<rparr>"

text \<open>The same server a moment later: the socket of client 1 is closing, client 2 is open.\<close>

definition laterServer :: server where
  "laterServer = exampleServer\<lparr>readyState := (\<lambda>w. if w = 1 then CLOSING else OPEN)\<rparr>"

definition connectedSession :: session_state where
  "connectedSession = fst (initializeMediaStream newSession)"

definition ringingRequest :: webhook_request where
  "ringingRequest =
     \<lparr>signatureHeader = Some ''good'', reqUrl = ''/twilio/status?callId=c1'',
      callIdParam = Some ''c1'', chunks = [''ringing'']\<rparr>"

section \<open>Properties\<close>

lemmas example_defs =
  exampleTwilio_def exampleOptions_def exampleSession_def exampleServer_def healthy_def
  unhealthy_def exampleEnv_def failingEnv_def brokenEnv_def

subsection \<open>The session table and the set of control clients\<close>

lemma mapGet_mapDelete: "mapGet (mapDelete k m) k = None"
  by (induction m) (auto simp: mapGet_def)

lemma mapDelete_mapSet: "mapDelete k (mapSet k v m) = mapDelete k m"
  by (induction m) auto

lemma mapDelete_absent: "mapGet m k = None \<Longrightarrow> mapDelete k m = m"
  by (induction m) (auto simp: mapGet_def split: if_splits)

lemma setAdd_distinct: "distinct xs \<Longrightarrow> distinct (setAdd x xs)"
  by (simp add: setAdd_def)

lemma setDelete_distinct: "distinct xs \<Longrightarrow> distinct (setDelete x xs)"
  by (simp add: setDelete_def)

lemma mapSet_keys: "fst ` set (mapSet k v m) = insert k (fst ` set m)"
proof (induction m)
  case Nil
  then show ?case by simp
next
  case (Cons p m)
  obtain k' v' where p: "p = (k', v')" by (cases p)
  show ?case
  proof (cases "k' = k")
    case True
    then show ?thesis by (simp add: p)
  next
    case False
    with Cons.IH show ?thesis by (simp add: p insert_commute)
  qed
qed

lemma mapSet_distinct: "distinct (map fst m) \<Longrightarrow> distinct (map fst (mapSet k v m))"
proof (induction m)
  case Nil
  then show ?case by simp
next
  case (Cons p m)
  obtain k' v' where p: "p = (k', v')" by (cases p)
  show ?case
  proof (cases "k' = k")
    case True
    with Cons.prems show ?thesis by (simp add: p)
  next
    case False
    with Cons show ?thesis by (simp add: p mapSet_keys)
  qed
qed

lemma mapDelete_keys: "fst ` set (mapDelete k m) = fst ` set m - {k}"
proof (induction m)
  case Nil
  then show ?case by simp
next
  case (Cons p m)
  obtain k' v' where p: "p = (k', v')" by (cases p)
  show ?case
  proof (cases "k' = k")
    case True
    with Cons.IH show ?thesis by (simp add: p)
  next
    case False
    with Cons.IH show ?thesis by (simp add: p insert_Diff_if)
  qed
qed

lemma mapDelete_distinct: "distinct (map fst m) \<Longrightarrow> distinct (map fst (mapDelete k m))"
proof (induction m)
  case Nil
  then show ?case by simp
next
  case (Cons p m)
  obtain k' v' where p: "p = (k', v')" by (cases p)
  show ?case
  proof (cases "k' = k")
    case True
    with Cons show ?thesis by (simp add: p)
  next
    case False
    with Cons show ?thesis by (simp add: p mapDelete_keys)
  qed
qed

text \<open>
  The handlers that write the session table or the set of control clients keep them a
  map and a set: no call identifier and no socket is in them twice.
\<close>

lemma sessions_distinct:
  assumes "distinct (map fst (sessions s))"
  shows "distinct (map fst (sessions (fst (initiateCallInternal api env s phone g ctx))))"
    and "distinct (map fst (sessions (fst (onSessionEnded s cid state))))"
    and "distinct (map fst (sessions (fst (mediaInitRejected s w cid err))))"
  using assms
  by (simp_all add: initiateCallInternal_def Let_def onSessionEnded_def mediaInitRejected_def
                    mapSet_distinct mapDelete_distinct
               split: sum.splits option.splits prod.splits)

lemma controlClients_distinct:
  assumes "distinct (controlClients s)"
  shows "distinct (controlClients (fst (handleControlConnection s w)))"
    and "distinct (controlClients (fst (controlOnClose s w)))"
    and "distinct (controlClients (fst (controlOnError s w)))"
  using assms
  by (simp_all add: handleControlConnection_def controlOnClose_def controlOnError_def
                    setAdd_distinct setDelete_distinct)

subsection \<open>Broadcasts to the control clients\<close>

lemma broadcastLoop_map_filter:
  "broadcastLoop rs msg cs = map (\<lambda>c. WsSend c msg) (filter (\<lambda>c. rs c = OPEN) cs)"
  by (induction cs) simp_all

lemma received_append: "received c (es @ fs) = received c es @ received c fs"
  by (induction c es rule: received.induct) simp_all

lemma received_broadcastLoop:
  "received c (broadcastLoop rs msg cs) = replicate (length (filter (\<lambda>x. x = c \<and> rs x = OPEN) cs)) msg"
  by (induction cs) simp_all

lemma count_distinct_member:
  "distinct cs \<Longrightarrow> c \<in> set cs \<Longrightarrow> length (filter (\<lambda>x. x = c \<and> P x) cs) = (if P c then 1 else 0)"
proof (induction cs)
  case Nil
  then show ?case by simp
next
  case (Cons a cs)
  show ?case
  proof (cases "a = c")
    case True
    with Cons.prems have "c \<notin> set cs" by simp
    then have "filter (\<lambda>x. x = c \<and> P x) cs = []" by (induction cs) auto
    with True show ?thesis by simp
  next
    case False
    with Cons show ?thesis by simp
  qed
qed

lemma count_nonmember:
  "c \<notin> set cs \<Longrightarrow> filter (\<lambda>x. x = c \<and> P x) cs = []"
  by (induction cs) auto

lemma received_broadcast_open:
  "distinct (controlClients s) \<Longrightarrow> c \<in> set (controlClients s) \<Longrightarrow> readyState s c = OPEN \<Longrightarrow>
   received c (broadcastToControl s msg) = [msg]"
  by (simp add: broadcastToControl_def received_broadcastLoop count_distinct_member)

lemma received_broadcast_skipped:
  "c \<notin> set (controlClients s) \<or> readyState s c \<noteq> OPEN \<Longrightarrow>
   received c (broadcastToControl s msg) = []"
  by (auto simp: broadcastToControl_def received_broadcastLoop count_nonmember)

lemma received_onSessionMessages:
  "\<forall>p \<in> set pairs. distinct (controlClients (fst p)) \<Longrightarrow>
   received c (onSessionMessages pairs) =
     map snd (filter (\<lambda>p. c \<in> set (controlClients (fst p)) \<and> readyState (fst p) c = OPEN) pairs)"
proof (induction pairs)
  case Nil
  then show ?case by simp
next
  case (Cons p pairs)
  obtain s msg where p: "p = (s, msg)" by (cases p)
  from Cons.prems p have d: "distinct (controlClients s)" by simp
  from Cons.prems have rest: "\<forall>p \<in> set pairs. distinct (controlClients (fst p))" by simp
  note ih = Cons.IH[OF rest]
  show ?case
  proof (cases "c \<in> set (controlClients s) \<and> readyState s c = OPEN")
    case True
    with d have "received c (broadcastToControl s msg) = [msg]"
      by (simp add: received_broadcast_open)
    with True show ?thesis
      by (simp add: p ih received_append onSessionMessage_def)
  next
    case False
    then have "received c (broadcastToControl s msg) = []"
      by (intro received_broadcast_skipped) blast
    with False show ?thesis
      by (simp add: p ih received_append onSessionMessage_def)
  qed
qed

text \<open>
  C10. On every broadcast, a control client of the set \<open>controlClients\<close> is sent the
  message if and only if the \<open>readyState\<close> of its socket is \<open>OPEN\<close> at that moment.
  The broadcast is exactly one \<open>send\<close> of the message for each open client of the set, in
  the order of the set: a client that is connecting, closing or closed is passed over,
  nothing is kept for it and nothing is sent again.
\<close>

theorem broadcast_open_only:
  "broadcastToControl s msg =
     map (\<lambda>c. WsSend c msg) (filter (\<lambda>c. readyState s c = OPEN) (controlClients s))
   \<and> (\<forall>c \<in> set (controlClients s).
        (WsSend c msg \<in> set (broadcastToControl s msg)) = (readyState s c = OPEN))
   \<and> (\<forall>c m. WsSend c m \<in> set (broadcastToControl s msg) \<longrightarrow>
        c \<in> set (controlClients s) \<and> readyState s c = OPEN \<and> m = msg)
   \<and> (\<forall>e \<in> set (broadcastToControl s msg). \<exists>c. e = WsSend c msg)"
  by (auto simp: broadcastToControl_def broadcastLoop_map_filter)

theorem broadcast_open_only_witness:
  "1 \<in> set (controlClients exampleServer) \<and> readyState exampleServer 1 = OPEN
   \<and> WsSend 1 (CallRinging ''c1'') \<in> set (broadcastToControl exampleServer (CallRinging ''c1''))
   \<and> 2 \<in> set (controlClients exampleServer) \<and> readyState exampleServer 2 = CLOSING
   \<and> WsSend 2 (CallRinging ''c1'') \<notin> set (broadcastToControl exampleServer (CallRinging ''c1''))
   \<and> broadcastToControl exampleServer (CallRinging ''c1'') = [WsSend 1 (CallRinging ''c1'')]
   \<and> (\<exists>c. WsSend 1 (CallRinging ''c1'') = WsSend c (CallRinging ''c1''))"
proof -
  have members: "1 \<in> set (controlClients exampleServer) \<and> 2 \<in> set (controlClients exampleServer)"
    by (simp add: exampleServer_def)
  have states: "readyState exampleServer 1 = OPEN \<and> readyState exampleServer 2 = CLOSING"
    by (simp add: exampleServer_def)
  note t = broadcast_open_only[of exampleServer "CallRinging ''c1''"]
  note iff = t[THEN conjunct2, THEN conjunct1]
  from members have m1: "1 \<in> set (controlClients exampleServer)" ..
  from members have m2: "2 \<in> set (controlClients exampleServer)" ..
  from states have s1: "readyState exampleServer 1 = OPEN" ..
  from states have s2: "readyState exampleServer 2 = CLOSING" ..
  from bspec[OF iff m1] s1
  have r1: "WsSend 1 (CallRinging ''c1'') \<in> set (broadcastToControl exampleServer (CallRinging ''c1''))"
    by simp
  from bspec[OF iff m2] s2
  have r2: "WsSend 2 (CallRinging ''c1'') \<notin> set (broadcastToControl exampleServer (CallRinging ''c1''))"
    by simp
  from t[THEN conjunct1]
  have r3: "broadcastToControl exampleServer (CallRinging ''c1'') = [WsSend 1 (CallRinging ''c1'')]"
    by (simp add: exampleServer_def)
  note r4 = bspec[OF t[THEN conjunct2, THEN conjunct2, THEN conjunct2] r1]
  from t[THEN conjunct2, THEN conjunct2, THEN conjunct1, THEN spec, THEN spec, THEN mp, OF r1]
  have m1': "1 \<in> set (controlClients exampleServer)" by (rule conjunct1)
  show ?thesis
    apply (intro conjI)
           apply (fact m1')
          apply (fact s1)
         apply (fact r1)
        apply (fact m2)
       apply (fact s2)
      apply (fact r2)
     apply (fact r3)
    apply (fact r4)
    done
qed

subsection \<open>Starting a call\<close>

lemma initiateCallInternal_failed_preflight:
  assumes "preflights env = Inr (tw, dg, el)" and "\<not> ok tw \<or> \<not> ok dg \<or> \<not> ok el"
  shows "initiateCallInternal api env s phone g ctx =
           (s, [PreflightTwilio, PreflightDeepgram, PreflightElevenLabs g ctx],
            Inl (Error (message (if \<not> ok tw then tw else if \<not> ok dg then dg else el))))"
  using assms by (auto simp: initiateCallInternal_def)

lemma initiateCallInternal_placed:
  assumes "TwilioInitiateCall number cid \<in> set (fst (snd (initiateCallInternal api env s phone g ctx)))"
  shows "\<exists>tw dg el pre post.
           preflights env = Inr (tw, dg, el) \<and> ok tw \<and> ok dg \<and> ok el \<and>
           fst (snd (initiateCallInternal api env s phone g ctx)) =
             pre @ TwilioInitiateCall number cid # post \<and>
           PreflightTwilio \<in> set pre \<and> PreflightDeepgram \<in> set pre \<and>
           PreflightElevenLabs g ctx \<in> set pre"
proof (cases "preflights env")
  case (Inl err)
  with assms show ?thesis by (simp add: initiateCallInternal_def)
next
  case (Inr triple)
  obtain tw dg el where triple: "triple = (tw, dg, el)" by (cases triple) auto
  show ?thesis
  proof (cases "ok tw \<and> ok dg \<and> ok el")
    case False
    then have "\<not> ok tw \<or> \<not> ok dg \<or> \<not> ok el" by blast
    from initiateCallInternal_failed_preflight[OF _ this, of env api s phone g ctx] Inr triple assms
    show ?thesis by simp
  next
    case True
    show ?thesis
    proof (cases "formatPhoneNumber api phone")
      case (Inl err)
      with assms Inr triple True show ?thesis by (simp add: initiateCallInternal_def)
    next
      case fmt: (Inr formatted)
      let ?pre = "[PreflightTwilio, PreflightDeepgram, PreflightElevenLabs g ctx,
                   Console LOG (''[Preflight] '' @ message tw),
                   Console LOG (''[Preflight] '' @ message dg),
                   Console LOG (''[Preflight] '' @ message el),
                   NewCallSession \<lparr>callId = uuid env, phoneNumber = formatted,
                                   goal = g, callContext = ctx\<rparr>]"
      from assms Inr triple True fmt have eq: "number = formatted \<and> cid = uuid env"
        by (cases "originate env")
           (auto simp: initiateCallInternal_def Let_def broadcastToControl_def broadcastLoop_map_filter)
      have "\<exists>post. fst (snd (initiateCallInternal api env s phone g ctx)) =
              ?pre @ TwilioInitiateCall number cid # post"
        using Inr triple True fmt eq
        by (cases "originate env") (simp_all add: initiateCallInternal_def Let_def)
      then obtain post where
        "fst (snd (initiateCallInternal api env s phone g ctx)) =
           ?pre @ TwilioInitiateCall number cid # post" ..
      with Inr triple True show ?thesis
        by (intro exI[of _ tw] exI[of _ dg] exI[of _ el] exI[of _ ?pre] exI[of _ post]) simp
    qed
  qed
qed

text \<open>
  C2. Whenever \<open>initiateCallInternal\<close> asks the telephony provider to place the call,
  the three preflight checks have been started before it and have all resolved with
  \<open>ok\<close>. If the three checks resolve and one of them is not ok, the operation throws an
  \<open>Error\<close> with the message of the first failed check (in the order telephony,
  transcription, synthesis), after starting the three checks and doing nothing else: no
  session is built, the provider is not called, the server state is the one before, so
  the session table, the count \<open>activeCalls\<close> and the answer of \<open>GET /status\<close> are
  unchanged.
\<close>

theorem initiateCall_preflight_gate:
  "(TwilioInitiateCall number cid \<in> set (fst (snd (initiateCallInternal api env s phone g ctx))) \<longrightarrow>
      (\<exists>tw dg el pre post.
         preflights env = Inr (tw, dg, el) \<and> ok tw \<and> ok dg \<and> ok el \<and>
         fst (snd (initiateCallInternal api env s phone g ctx)) =
           pre @ TwilioInitiateCall number cid # post \<and>
         PreflightTwilio \<in> set pre \<and> PreflightDeepgram \<in> set pre \<and>
         PreflightElevenLabs g ctx \<in> set pre))
   \<and> (preflights env = Inr (tw', dg', el') \<and> (\<not> ok tw' \<or> \<not> ok dg' \<or> \<not> ok el') \<longrightarrow>
        initiateCallInternal api env s phone g ctx =
          (s, [PreflightTwilio, PreflightDeepgram, PreflightElevenLabs g ctx],
           Inl (Error (message (if \<not> ok tw' then tw' else if \<not> ok dg' then dg' else el'))))
        \<and> activeCalls (fst (initiateCallInternal api env s phone g ctx)) = activeCalls s
        \<and> handleStatusCheck opts (fst (initiateCallInternal api env s phone g ctx)) =
            handleStatusCheck opts s)"
proof (intro conjI impI)
  assume "TwilioInitiateCall number cid \<in> set (fst (snd (initiateCallInternal api env s phone g ctx)))"
  then show "\<exists>tw dg el pre post.
         preflights env = Inr (tw, dg, el) \<and> ok tw \<and> ok dg \<and> ok el \<and>
         fst (snd (initiateCallInternal api env s phone g ctx)) =
           pre @ TwilioInitiateCall number cid # post \<and>
         PreflightTwilio \<in> set pre \<and> PreflightDeepgram \<in> set pre \<and>
         PreflightElevenLabs g ctx \<in> set pre"
    by (rule initiateCallInternal_placed)
next
  assume a: "preflights env = Inr (tw', dg', el') \<and> (\<not> ok tw' \<or> \<not> ok dg' \<or> \<not> ok el')"
  then have r: "initiateCallInternal api env s phone g ctx =
          (s, [PreflightTwilio, PreflightDeepgram, PreflightElevenLabs g ctx],
           Inl (Error (message (if \<not> ok tw' then tw' else if \<not> ok dg' then dg' else el'))))"
    using initiateCallInternal_failed_preflight by blast
  show "initiateCallInternal api env s phone g ctx =
          (s, [PreflightTwilio, PreflightDeepgram, PreflightElevenLabs g ctx],
           Inl (Error (message (if \<not> ok tw' then tw' else if \<not> ok dg' then dg' else el'))))"
    by (rule r)
  show "activeCalls (fst (initiateCallInternal api env s phone g ctx)) = activeCalls s"
    by (simp add: r)
  show "handleStatusCheck opts (fst (initiateCallInternal api env s phone g ctx)) =
            handleStatusCheck opts s"
    by (simp add: r)
qed

theorem initiateCall_preflight_gate_witness:
  "TwilioInitiateCall ''+15551234567'' ''c2'' \<in>
     set (fst (snd (initiateCallInternal exampleTwilio exampleEnv exampleServer ''15551234567'' ''ask'' None)))
   \<and> preflights exampleEnv = Inr (healthy, healthy, healthy) \<and> ok healthy
   \<and> preflights failingEnv = Inr (healthy, unhealthy, healthy) \<and> \<not> ok unhealthy
   \<and> initiateCallInternal exampleTwilio failingEnv exampleServer ''15551234567'' ''ask'' None =
       (exampleServer, [PreflightTwilio, PreflightDeepgram, PreflightElevenLabs ''ask'' None],
        Inl (Error ''Deepgram preflight failed''))
   \<and> activeCalls (fst (initiateCallInternal exampleTwilio failingEnv exampleServer
         ''15551234567'' ''ask'' None)) = 1"
proof -
  have placed: "TwilioInitiateCall ''+15551234567'' ''c2'' \<in>
     set (fst (snd (initiateCallInternal exampleTwilio exampleEnv exampleServer ''15551234567'' ''ask'' None)))"
    by (simp add: initiateCallInternal_def example_defs broadcastToControl_def Let_def)
  have failing: "preflights failingEnv = Inr (healthy, unhealthy, healthy) \<and>
                 (\<not> ok healthy \<or> \<not> ok unhealthy \<or> \<not> ok healthy)"
    by (simp add: example_defs)
  from initiateCall_preflight_gate
         [of "''+15551234567''" "''c2''" exampleTwilio exampleEnv exampleServer "''15551234567''"
             "''ask''" None healthy healthy healthy "exampleOptions"]
       placed
  have "\<exists>tw dg el. preflights exampleEnv = Inr (tw, dg, el) \<and> ok tw \<and> ok dg \<and> ok el"
    by blast
  then have ok: "preflights exampleEnv = Inr (healthy, healthy, healthy) \<and> ok healthy"
    by (auto simp: exampleEnv_def)
  from initiateCall_preflight_gate
         [of "''+15551234567''" "''c2''" exampleTwilio failingEnv exampleServer "''15551234567''"
             "''ask''" None healthy unhealthy healthy "exampleOptions"]
       failing
  have "initiateCallInternal exampleTwilio failingEnv exampleServer ''15551234567'' ''ask'' None =
          (exampleServer, [PreflightTwilio, PreflightDeepgram, PreflightElevenLabs ''ask'' None],
           Inl (Error (message (if \<not> ok healthy then healthy
                                else if \<not> ok unhealthy then unhealthy else healthy))))
        \<and> activeCalls (fst (initiateCallInternal exampleTwilio failingEnv exampleServer
             ''15551234567'' ''ask'' None)) = activeCalls exampleServer"
    by blast
  then have failed:
    "initiateCallInternal exampleTwilio failingEnv exampleServer ''15551234567'' ''ask'' None =
       (exampleServer, [PreflightTwilio, PreflightDeepgram, PreflightElevenLabs ''ask'' None],
        Inl (Error ''Deepgram preflight failed''))
     \<and> activeCalls (fst (initiateCallInternal exampleTwilio failingEnv exampleServer
          ''15551234567'' ''ask'' None)) = 1"
    by (simp add: healthy_def unhealthy_def activeCalls_def exampleServer_def)
  have nok: "\<not> ok unhealthy" by (simp add: unhealthy_def)
  from failed have state: "activeCalls (fst (initiateCallInternal exampleTwilio failingEnv
          exampleServer ''15551234567'' ''ask'' None)) = 1" ..
  from failed have result:
    "initiateCallInternal exampleTwilio failingEnv exampleServer ''15551234567'' ''ask'' None =
       (exampleServer, [PreflightTwilio, PreflightDeepgram, PreflightElevenLabs ''ask'' None],
        Inl (Error ''Deepgram preflight failed''))" ..
  from failing have pf: "preflights failingEnv = Inr (healthy, unhealthy, healthy)" ..
  from ok have pok: "preflights exampleEnv = Inr (healthy, healthy, healthy)" ..
  from ok have h: "ok healthy" ..
  show ?thesis
    apply (intro conjI)
          apply (fact placed)
         apply (fact pok)
        apply (fact h)
       apply (fact pf)
      apply (fact nok)
     apply (fact result)
    apply (fact state)
    done
qed

lemma initiateCallInternal_origination_failed:
  assumes "preflights env = Inr (tw, dg, el)" and "ok tw" and "ok dg" and "ok el"
    and "formatPhoneNumber api phone = Inr formatted" and "originate env = Inl err"
  shows "initiateCallInternal api env s phone g ctx =
           (s\<lparr>sessions := mapDelete (uuid env) (sessions s)\<rparr>,
            [PreflightTwilio, PreflightDeepgram, PreflightElevenLabs g ctx,
             Console LOG (''[Preflight] '' @ message tw),
             Console LOG (''[Preflight] '' @ message dg),
             Console LOG (''[Preflight] '' @ message el),
             NewCallSession \<lparr>callId = uuid env, phoneNumber = formatted,
                             goal = g, callContext = ctx\<rparr>,
             TwilioInitiateCall formatted (uuid env)],
            Inl err)"
  using assms by (simp add: initiateCallInternal_def Let_def mapDelete_mapSet)

text \<open>
  C5. The three preflight checks are ok and the number is formatted, so
  \<open>initiateCallInternal\<close> builds a session, stores it and asks the provider to place the
  call; the provider call fails with \<open>err\<close>. Then the same \<open>err\<close> is thrown to the caller,
  the table has no entry for the call identifier afterwards (and is the table from before
  when the identifier was fresh), the set of control clients is untouched, and nothing is
  sent to any control client and nothing is emitted on the server's emitter: no
  \<open>call_started\<close> and no other event. A control client that asked for the call gets
  the error as a reply on its own socket alone.
\<close>

theorem origination_failure_removes_session:
  "preflights env = Inr (tw, dg, el) \<and> ok tw \<and> ok dg \<and> ok el \<and>
   formatPhoneNumber api phone = Inr formatted \<and> originate env = Inl err \<longrightarrow>
     snd (snd (initiateCallInternal api env s phone g ctx)) = Inl err
     \<and> NewCallSession \<lparr>callId = uuid env, phoneNumber = formatted, goal = g, callContext = ctx\<rparr>
          \<in> set (fst (snd (initiateCallInternal api env s phone g ctx)))
     \<and> TwilioInitiateCall formatted (uuid env)
          \<in> set (fst (snd (initiateCallInternal api env s phone g ctx)))
     \<and> mapGet (sessions (fst (initiateCallInternal api env s phone g ctx))) (uuid env) = None
     \<and> \<not> mapHas (sessions (fst (initiateCallInternal api env s phone g ctx))) (uuid env)
     \<and> (mapGet (sessions s) (uuid env) = None \<longrightarrow>
          fst (initiateCallInternal api env s phone g ctx) = s)
     \<and> controlClients (fst (initiateCallInternal api env s phone g ctx)) = controlClients s
     \<and> \<not> list_ex isSend (fst (snd (initiateCallInternal api env s phone g ctx)))
     \<and> \<not> list_ex isEmit (fst (snd (initiateCallInternal api env s phone g ctx)))
     \<and> received c (fst (snd (initiateCallInternal api env s phone g ctx))) = []
     \<and> controlOnMessage api env settled s w (Inr (MsgInitiateCall phone g ctx)) =
          (fst (initiateCallInternal api env s phone g ctx),
           fst (snd (initiateCallInternal api env s phone g ctx)) @
           [WsSend w (ErrorMessage None (errorText err))])"
proof (intro impI)
  assume a: "preflights env = Inr (tw, dg, el) \<and> ok tw \<and> ok dg \<and> ok el \<and>
             formatPhoneNumber api phone = Inr formatted \<and> originate env = Inl err"
  then have r: "initiateCallInternal api env s phone g ctx =
           (s\<lparr>sessions := mapDelete (uuid env) (sessions s)\<rparr>,
            [PreflightTwilio, PreflightDeepgram, PreflightElevenLabs g ctx,
             Console LOG (''[Preflight] '' @ message tw),
             Console LOG (''[Preflight] '' @ message dg),
             Console LOG (''[Preflight] '' @ message el),
             NewCallSession \<lparr>callId = uuid env, phoneNumber = formatted,
                             goal = g, callContext = ctx\<rparr>,
             TwilioInitiateCall formatted (uuid env)],
            Inl err)"
    by (intro initiateCallInternal_origination_failed) simp_all
  have fresh: "mapGet (sessions s) (uuid env) = None \<longrightarrow>
                 s\<lparr>sessions := mapDelete (uuid env) (sessions s)\<rparr> = s"
  proof
    assume "mapGet (sessions s) (uuid env) = None"
    then have "mapDelete (uuid env) (sessions s) = sessions s"
      by (rule mapDelete_absent)
    then show "s\<lparr>sessions := mapDelete (uuid env) (sessions s)\<rparr> = s" by simp
  qed
  show "snd (snd (initiateCallInternal api env s phone g ctx)) = Inl err
     \<and> NewCallSession \<lparr>callId = uuid env, phoneNumber = formatted, goal = g, callContext = ctx\<rparr>
          \<in> set (fst (snd (initiateCallInternal api env s phone g ctx)))
     \<and> TwilioInitiateCall formatted (uuid env)
          \<in> set (fst (snd (initiateCallInternal api env s phone g ctx)))
     \<and> mapGet (sessions (fst (initiateCallInternal api env s phone g ctx))) (uuid env) = None
     \<and> \<not> mapHas (sessions (fst (initiateCallInternal api env s phone g ctx))) (uuid env)
     \<and> (mapGet (sessions s) (uuid env) = None \<longrightarrow>
          fst (initiateCallInternal api env s phone g ctx) = s)
     \<and> controlClients (fst (initiateCallInternal api env s phone g ctx)) = controlClients s
     \<and> \<not> list_ex isSend (fst (snd (initiateCallInternal api env s phone g ctx)))
     \<and> \<not> list_ex isEmit (fst (snd (initiateCallInternal api env s phone g ctx)))
     \<and> received c (fst (snd (initiateCallInternal api env s phone g ctx))) = []
     \<and> controlOnMessage api env settled s w (Inr (MsgInitiateCall phone g ctx)) =
          (fst (initiateCallInternal api env s phone g ctx),
           fst (snd (initiateCallInternal api env s phone g ctx)) @
           [WsSend w (ErrorMessage None (errorText err))])"
    unfolding r using fresh
    by (simp add: mapGet_mapDelete mapHas_def controlOnMessage_def handleControlMessage_def r)
qed

theorem origination_failure_removes_session_witness:
  "preflights brokenEnv = Inr (healthy, healthy, healthy) \<and> ok healthy
   \<and> formatPhoneNumber exampleTwilio ''15551234567'' = Inr ''+15551234567''
   \<and> originate brokenEnv = Inl (Error ''provider rejected the call'')
   \<and> snd (snd (initiateCallInternal exampleTwilio brokenEnv exampleServer ''15551234567'' ''ask'' None))
       = Inl (Error ''provider rejected the call'')
   \<and> mapGet (sessions (fst (initiateCallInternal exampleTwilio brokenEnv exampleServer
         ''15551234567'' ''ask'' None))) (uuid brokenEnv) = None
   \<and> fst (initiateCallInternal exampleTwilio brokenEnv exampleServer ''15551234567'' ''ask'' None)
       = exampleServer
   \<and> received 1 (fst (snd (initiateCallInternal exampleTwilio brokenEnv exampleServer
         ''15551234567'' ''ask'' None))) = []"
proof -
  have p: "preflights brokenEnv = Inr (healthy, healthy, healthy)" by (simp add: brokenEnv_def)
  have h: "ok healthy" by (simp add: healthy_def)
  have f: "formatPhoneNumber exampleTwilio ''15551234567'' = Inr ''+15551234567''"
    by (simp add: exampleTwilio_def)
  have e: "originate brokenEnv = Inl (Error ''provider rejected the call'')"
    by (simp add: brokenEnv_def)
  have fresh: "mapGet (sessions exampleServer) (uuid brokenEnv) = None"
    by (simp add: mapGet_def exampleServer_def brokenEnv_def)
  from p h f e have prem:
    "preflights brokenEnv = Inr (healthy, healthy, healthy) \<and> ok healthy \<and> ok healthy \<and> ok healthy \<and>
     formatPhoneNumber exampleTwilio ''15551234567'' = Inr ''+15551234567'' \<and>
     originate brokenEnv = Inl (Error ''provider rejected the call'')"
    by (intro conjI)
  note c = origination_failure_removes_session
             [of brokenEnv healthy healthy healthy exampleTwilio "''15551234567''" "''+15551234567''"
                 "Error ''provider rejected the call''" exampleServer "''ask''" None 1 None 1,
              THEN mp, OF prem]
  note r1 = c[THEN conjunct1]
  note r4 = c[THEN conjunct2, THEN conjunct2, THEN conjunct2, THEN conjunct1]
  note r6 = c[THEN conjunct2, THEN conjunct2, THEN conjunct2, THEN conjunct2, THEN conjunct2,
              THEN conjunct1, THEN mp, OF fresh]
  note r10 = c[THEN conjunct2, THEN conjunct2, THEN conjunct2, THEN conjunct2, THEN conjunct2,
               THEN conjunct2, THEN conjunct2, THEN conjunct2, THEN conjunct2, THEN conjunct1]
  show ?thesis
    apply (intro conjI)
           apply (fact p)
          apply (fact h)
         apply (fact f)
        apply (fact e)
       apply (fact r1)
      apply (fact r4)
     apply (fact r6)
    apply (fact r10)
    done
qed

lemma initiateCallInternal_started:
  assumes "initiateCallInternal api env s phone g ctx = (s', effs, Inr cid)"
  shows "\<exists>sid. originate env = Inr sid \<and> cid = uuid env \<and>
           (\<forall>c. received c effs =
                  received c (broadcastLoop (readyState s) (CallStarted cid sid) (controlClients s)))"
  using assms
  by (auto simp: initiateCallInternal_def Let_def broadcastToControl_def received_append
           split: sum.splits option.splits prod.splits)

text \<open>
  C9, as the code has it. Take a control client that is in the set \<open>controlClients\<close> (a
  set holds it once) and whose socket is \<open>OPEN\<close>. Every broadcast reaches it exactly once,
  and when a call is started it observes \<open>call_started\<close> for that call exactly once and
  nothing else. A client that is not in the set, or whose socket is not \<open>OPEN\<close> at the
  time of the broadcast, is sent nothing. Of the messages that sessions emit one after the
  other, a client observes exactly those emitted while it is in the set with an open
  socket, each once, in the order of emission.
\<close>

theorem broadcast_once_in_order:
  "(distinct (controlClients s) \<and> c \<in> set (controlClients s) \<and> readyState s c = OPEN \<longrightarrow>
      received c (broadcastToControl s msg) = [msg]
      \<and> (initiateCallInternal api env s phone g ctx = (s', effs, Inr cid) \<longrightarrow>
           (\<exists>sid. originate env = Inr sid \<and> received c effs = [CallStarted cid sid])))
   \<and> (c \<notin> set (controlClients s) \<or> readyState s c \<noteq> OPEN \<longrightarrow>
        received c (broadcastToControl s msg) = [])
   \<and> ((\<forall>p \<in> set pairs. distinct (controlClients (fst p))) \<longrightarrow>
        received c (onSessionMessages pairs) =
          map snd (filter (\<lambda>p. c \<in> set (controlClients (fst p)) \<and> readyState (fst p) c = OPEN)
                     pairs))"
proof (intro conjI impI)
  assume a: "distinct (controlClients s) \<and> c \<in> set (controlClients s) \<and> readyState s c = OPEN"
  then show "received c (broadcastToControl s msg) = [msg]"
    by (simp add: received_broadcast_open)
  assume "initiateCallInternal api env s phone g ctx = (s', effs, Inr cid)"
  from initiateCallInternal_started[OF this] obtain sid where
    sid: "originate env = Inr sid" and
    effs: "received c effs =
             received c (broadcastLoop (readyState s) (CallStarted cid sid) (controlClients s))"
    by blast
  from a have "received c (broadcastLoop (readyState s) (CallStarted cid sid) (controlClients s))
                 = [CallStarted cid sid]"
    by (simp add: received_broadcastLoop count_distinct_member)
  with effs have "received c effs = [CallStarted cid sid]"
    by simp
  with sid show "\<exists>sid. originate env = Inr sid \<and> received c effs = [CallStarted cid sid]"
    by blast
next
  assume "c \<notin> set (controlClients s) \<or> readyState s c \<noteq> OPEN"
  then show "received c (broadcastToControl s msg) = []"
    by (rule received_broadcast_skipped)
next
  assume "\<forall>p \<in> set pairs. distinct (controlClients (fst p))"
  then show "received c (onSessionMessages pairs) =
          map snd (filter (\<lambda>p. c \<in> set (controlClients (fst p)) \<and> readyState (fst p) c = OPEN)
                     pairs)"
    by (rule received_onSessionMessages)
qed

theorem broadcast_once_in_order_witness:
  "distinct (controlClients exampleServer) \<and> 1 \<in> set (controlClients exampleServer)
   \<and> readyState exampleServer 1 = OPEN
   \<and> received 1 (broadcastToControl exampleServer (CallRinging ''c1'')) = [CallRinging ''c1'']
   \<and> originate exampleEnv = Inr ''CA1''
   \<and> received 1 (fst (snd (initiateCallInternal exampleTwilio exampleEnv exampleServer
         ''15551234567'' ''ask'' None))) = [CallStarted ''c2'' ''CA1'']
   \<and> readyState exampleServer 2 \<noteq> OPEN
   \<and> received 2 (broadcastToControl exampleServer (CallRinging ''c1'')) = []
   \<and> distinct (controlClients laterServer)
   \<and> received 1 (onSessionMessages
         [(exampleServer, SessionMessage ''a''), (laterServer, SessionMessage ''b''),
          (exampleServer, SessionMessage ''c'')]) = [SessionMessage ''a'', SessionMessage ''c'']"
proof -
  obtain s' effs where run:
    "initiateCallInternal exampleTwilio exampleEnv exampleServer ''15551234567'' ''ask'' None
       = (s', effs, Inr ''c2'')"
    by (simp add: initiateCallInternal_def example_defs Let_def)
  have d: "distinct (controlClients exampleServer)" by (simp add: exampleServer_def)
  have d': "distinct (controlClients laterServer)"
    by (simp add: laterServer_def exampleServer_def)
  have m: "1 \<in> set (controlClients exampleServer)" by (simp add: exampleServer_def)
  have o: "readyState exampleServer 1 = OPEN" by (simp add: exampleServer_def)
  have n: "readyState exampleServer 2 \<noteq> OPEN" by (simp add: exampleServer_def)
  have sid: "originate exampleEnv = Inr ''CA1''" by (simp add: exampleEnv_def)
  note t1 = broadcast_once_in_order
              [where s = exampleServer and c = 1 and msg = "CallRinging ''c1''"
                 and api = exampleTwilio and env = exampleEnv and phone = "''15551234567''"
                 and g = "''ask''" and ctx = None and s' = s' and effs = effs and cid = "''c2''"
                 and pairs = "[(exampleServer, SessionMessage ''a''),
                               (laterServer, SessionMessage ''b''),
                               (exampleServer, SessionMessage ''c'')]"]
  from d m o have prem: "distinct (controlClients exampleServer) \<and>
      1 \<in> set (controlClients exampleServer) \<and> readyState exampleServer 1 = OPEN"
    by (intro conjI)
  note c1 = t1[THEN conjunct1, THEN mp, OF prem]
  note r1 = c1[THEN conjunct1]
  from c1[THEN conjunct2, THEN mp, OF run]
  have "\<exists>sid. originate exampleEnv = Inr sid \<and> received 1 effs = [CallStarted ''c2'' sid]" .
  with sid have "received 1 effs = [CallStarted ''c2'' ''CA1'']" by auto
  with run have r3: "received 1 (fst (snd (initiateCallInternal exampleTwilio exampleEnv exampleServer
         ''15551234567'' ''ask'' None))) = [CallStarted ''c2'' ''CA1'']"
    by simp
  note t2 = broadcast_once_in_order
              [where s = exampleServer and c = 2 and msg = "CallRinging ''c1''"]
  from n have "2 \<notin> set (controlClients exampleServer) \<or> readyState exampleServer 2 \<noteq> OPEN" ..
  note r4 = t2[THEN conjunct2, THEN conjunct1, THEN mp, OF this]
  from d d' have all: "\<forall>p \<in> set [(exampleServer, SessionMessage ''a''),
                                (laterServer, SessionMessage ''b''),
                                (exampleServer, SessionMessage ''c'')].
                          distinct (controlClients (fst p))"
    by simp
  from t1[THEN conjunct2, THEN conjunct2, THEN mp, OF all]
  have r5: "received 1 (onSessionMessages
         [(exampleServer, SessionMessage ''a''), (laterServer, SessionMessage ''b''),
          (exampleServer, SessionMessage ''c'')]) = [SessionMessage ''a'', SessionMessage ''c'']"
    by (simp add: laterServer_def exampleServer_def)
  show ?thesis
    apply (intro conjI)
             apply (fact d)
            apply (fact m)
           apply (fact o)
          apply (fact r1)
         apply (fact sid)
        apply (fact r3)
       apply (fact n)
      apply (fact r4)
     apply (fact d')
    apply (fact r5)
    done
qed

text \<open>
  Two control clients are in the set, the socket of the second is closing. A call is
  started: the first client observes \<open>call_started\<close>, the second observes nothing.
\<close>

theorem broadcast_every_client_counterexample:
  "controlClients exampleServer = [1, 2]
   \<and> received 1 (fst (snd (initiateCallInternal exampleTwilio exampleEnv exampleServer
         ''15551234567'' ''ask'' None))) = [CallStarted ''c2'' ''CA1'']
   \<and> received 2 (fst (snd (initiateCallInternal exampleTwilio exampleEnv exampleServer
         ''15551234567'' ''ask'' None))) = []"
  by (simp add: initiateCallInternal_def example_defs Let_def broadcastToControl_def)

subsection \<open>The telephony webhooks\<close>

lemma sessionCalls_Nil: "sessionCalls [] = []"
  by (simp add: sessionCalls_def List.map_filter_simps)

lemma sessionCalls_Cons:
  "sessionCalls (e # es) =
     (case sessionCallOf e of None \<Rightarrow> sessionCalls es | Some c \<Rightarrow> c # sessionCalls es)"
  by (simp add: sessionCalls_def List.map_filter_simps split: option.splits)

lemma sessionCalls_append: "sessionCalls (es @ fs) = sessionCalls es @ sessionCalls fs"
  by (induction es) (simp_all add: sessionCalls_Nil sessionCalls_Cons split: option.splits)

lemma sessionCalls_broadcast: "sessionCalls (broadcastToControl s msg) = []"
  by (simp add: broadcastToControl_def broadcastLoop_map_filter sessionCalls_def
                List.map_filter_def o_def)

lemma handleTwilioVoice_state: "fst (handleTwilioVoice opts api s req) = s"
  by (simp add: handleTwilioVoice_def Let_def split: option.splits)

lemma handleTwilioStatus_state: "fst (handleTwilioStatus opts api s req) = s"
  by (simp add: handleTwilioStatus_def Let_def split: option.splits)

lemma handleTwilioVoice_rejects:
  assumes "signatureHeader req = Some signature" and "signature \<noteq> []"
    and "readBody [] 0 (chunks req) = Some body"
    and "\<not> validateWebhookSignature api (config opts) signature
             (publicUrl opts @ reqUrl req) (parseWebhookBody api body)"
  shows "handleTwilioVoice opts api s req =
           (s, [Console WARN ''[Twilio] Invalid webhook signature'',
                HttpResponse 403 (ErrorJson ''Invalid signature'')])"
  using assms by (simp add: handleTwilioVoice_def Let_def)

lemma handleTwilioStatus_rejects:
  assumes "signatureHeader req = Some signature" and "signature \<noteq> []"
    and "readBody [] 0 (chunks req) = Some body"
    and "\<not> validateWebhookSignature api (config opts) signature
             (publicUrl opts @ reqUrl req) (parseWebhookBody api body)"
  shows "handleTwilioStatus opts api s req =
           (s, [Console WARN ''[Twilio] Invalid webhook signature'',
                HttpResponse 403 (ErrorJson ''Invalid signature'')])"
  using assms by (simp add: handleTwilioStatus_def Let_def)

lemma handleTwilioVoice_body:
  "readBody [] 0 (chunks req) = None \<Longrightarrow>
   handleTwilioVoice opts api s req = (s, [HttpResponse 413 (ErrorJson ''Request body too large'')])"
  by (simp add: handleTwilioVoice_def)

lemma handleTwilioStatus_body:
  "readBody [] 0 (chunks req) = None \<Longrightarrow>
   handleTwilioStatus opts api s req = (s, [HttpResponse 413 (ErrorJson ''Request body too large'')])"
  by (simp add: handleTwilioStatus_def)

text \<open>
  C1, as the code has it. A request to \<open>POST /twilio/voice\<close> or \<open>POST /twilio/status\<close>
  that carries a non-empty \<open>x-twilio-signature\<close> header and whose body is within the
  size cap has that signature validated, against the configuration, the public URL
  followed by the request URL, and the parsed body, before anything of the payload is
  used. If it does not validate, the answer is 403 with "Invalid signature" after a
  warning on the console, and nothing else happens: the server state is the one before,
  no method of a session is called and nothing is sent to a control client. Hence a
  signed request that is answered 200, or that leads to a call on a session, has a body
  within the cap and a signature that validated. Neither handler ever writes the session
  table or the set of control clients.
\<close>

theorem webhook_signature_checked:
  "(signatureHeader req = Some signature \<and> signature \<noteq> [] \<and>
    readBody [] 0 (chunks req) = Some body \<and>
    \<not> validateWebhookSignature api (config opts) signature
         (publicUrl opts @ reqUrl req) (parseWebhookBody api body) \<longrightarrow>
      handleTwilioVoice opts api s req =
        (s, [Console WARN ''[Twilio] Invalid webhook signature'',
             HttpResponse 403 (ErrorJson ''Invalid signature'')])
      \<and> handleTwilioStatus opts api s req =
        (s, [Console WARN ''[Twilio] Invalid webhook signature'',
             HttpResponse 403 (ErrorJson ''Invalid signature'')])
      \<and> sessionCalls (snd (handleTwilioVoice opts api s req)) = []
      \<and> sessionCalls (snd (handleTwilioStatus opts api s req)) = []
      \<and> \<not> list_ex isSend (snd (handleTwilioVoice opts api s req))
      \<and> \<not> list_ex isSend (snd (handleTwilioStatus opts api s req)))
   \<and> (signatureHeader req = Some signature \<and> signature \<noteq> [] \<and>
      (HttpResponse 200 answer \<in> set (snd (handleTwilioVoice opts api s req)) \<or>
       HttpResponse 200 answer \<in> set (snd (handleTwilioStatus opts api s req)) \<or>
       sessionCalls (snd (handleTwilioStatus opts api s req)) \<noteq> []) \<longrightarrow>
        (\<exists>body. readBody [] 0 (chunks req) = Some body \<and>
           validateWebhookSignature api (config opts) signature
             (publicUrl opts @ reqUrl req) (parseWebhookBody api body)))
   \<and> fst (handleTwilioVoice opts api s req) = s
   \<and> fst (handleTwilioStatus opts api s req) = s"
proof (intro conjI impI)
  assume a: "signatureHeader req = Some signature \<and> signature \<noteq> [] \<and>
    readBody [] 0 (chunks req) = Some body \<and>
    \<not> validateWebhookSignature api (config opts) signature
         (publicUrl opts @ reqUrl req) (parseWebhookBody api body)"
  from a have a1: "signatureHeader req = Some signature" by (rule conjunct1)
  from a have a2: "signature \<noteq> []" by (rule conjunct2[THEN conjunct1])
  from a have a3: "readBody [] 0 (chunks req) = Some body"
    by (rule conjunct2[THEN conjunct2, THEN conjunct1])
  from a have a4: "\<not> validateWebhookSignature api (config opts) signature
         (publicUrl opts @ reqUrl req) (parseWebhookBody api body)"
    by (rule conjunct2[THEN conjunct2, THEN conjunct2])
  have v: "handleTwilioVoice opts api s req =
        (s, [Console WARN ''[Twilio] Invalid webhook signature'',
             HttpResponse 403 (ErrorJson ''Invalid signature'')])"
    by (rule handleTwilioVoice_rejects[OF a1 a2 a3 a4])
  have t: "handleTwilioStatus opts api s req =
        (s, [Console WARN ''[Twilio] Invalid webhook signature'',
             HttpResponse 403 (ErrorJson ''Invalid signature'')])"
    by (rule handleTwilioStatus_rejects[OF a1 a2 a3 a4])
  show "handleTwilioVoice opts api s req =
        (s, [Console WARN ''[Twilio] Invalid webhook signature'',
             HttpResponse 403 (ErrorJson ''Invalid signature'')])"
    by (rule v)
  show "handleTwilioStatus opts api s req =
        (s, [Console WARN ''[Twilio] Invalid webhook signature'',
             HttpResponse 403 (ErrorJson ''Invalid signature'')])"
    by (rule t)
  show "sessionCalls (snd (handleTwilioVoice opts api s req)) = []"
    by (simp add: v sessionCalls_Nil sessionCalls_Cons)
  show "sessionCalls (snd (handleTwilioStatus opts api s req)) = []"
    by (simp add: t sessionCalls_Nil sessionCalls_Cons)
  show "\<not> list_ex isSend (snd (handleTwilioVoice opts api s req))"
    by (simp add: v)
  show "\<not> list_ex isSend (snd (handleTwilioStatus opts api s req))"
    by (simp add: t)
next
  assume b: "signatureHeader req = Some signature \<and> signature \<noteq> [] \<and>
      (HttpResponse 200 answer \<in> set (snd (handleTwilioVoice opts api s req)) \<or>
       HttpResponse 200 answer \<in> set (snd (handleTwilioStatus opts api s req)) \<or>
       sessionCalls (snd (handleTwilioStatus opts api s req)) \<noteq> [])"
  show "\<exists>body. readBody [] 0 (chunks req) = Some body \<and>
           validateWebhookSignature api (config opts) signature
             (publicUrl opts @ reqUrl req) (parseWebhookBody api body)"
  proof (cases "readBody [] 0 (chunks req)")
    case None
    with b show ?thesis
      by (simp add: handleTwilioVoice_body handleTwilioStatus_body sessionCalls_Nil sessionCalls_Cons)
  next
    case (Some body)
    show ?thesis
    proof (cases "validateWebhookSignature api (config opts) signature
             (publicUrl opts @ reqUrl req) (parseWebhookBody api body)")
      case True
      with Some show ?thesis by simp
    next
      case False
      with b Some have
        "handleTwilioVoice opts api s req =
           (s, [Console WARN ''[Twilio] Invalid webhook signature'',
                HttpResponse 403 (ErrorJson ''Invalid signature'')])"
        "handleTwilioStatus opts api s req =
           (s, [Console WARN ''[Twilio] Invalid webhook signature'',
                HttpResponse 403 (ErrorJson ''Invalid signature'')])"
        by (simp_all add: handleTwilioVoice_rejects handleTwilioStatus_rejects)
      with b show ?thesis
        by (simp add: sessionCalls_Nil sessionCalls_Cons)
    qed
  qed
next
  show "fst (handleTwilioVoice opts api s req) = s" by (rule handleTwilioVoice_state)
  show "fst (handleTwilioStatus opts api s req) = s" by (rule handleTwilioStatus_state)
qed

theorem webhook_signature_checked_witness:
  "signatureHeader forgedRequest = Some ''forged'' \<and> ''forged'' \<noteq> []
   \<and> readBody [] 0 (chunks forgedRequest) = Some ''ringing''
   \<and> \<not> validateWebhookSignature exampleTwilio (config exampleOptions) ''forged''
          (publicUrl exampleOptions @ reqUrl forgedRequest)
          (parseWebhookBody exampleTwilio ''ringing'')
   \<and> handleTwilioStatus exampleOptions exampleTwilio exampleServer forgedRequest =
        (exampleServer, [Console WARN ''[Twilio] Invalid webhook signature'',
                         HttpResponse 403 (ErrorJson ''Invalid signature'')])
   \<and> handleTwilioVoice exampleOptions exampleTwilio exampleServer forgedRequest =
        (exampleServer, [Console WARN ''[Twilio] Invalid webhook signature'',
                         HttpResponse 403 (ErrorJson ''Invalid signature'')])
   \<and> signatureHeader inProgressRequest = Some ''good''
   \<and> HttpResponse 200 ReceivedJson \<in>
        set (snd (handleTwilioStatus exampleOptions exampleTwilio exampleServer inProgressRequest))
   \<and> validateWebhookSignature exampleTwilio (config exampleOptions) ''good''
          (publicUrl exampleOptions @ reqUrl inProgressRequest)
          (parseWebhookBody exampleTwilio ''in-progress'')"
proof -
  have h: "signatureHeader forgedRequest = Some ''forged''" by (simp add: forgedRequest_def)
  have ne: "''forged'' \<noteq> []" by simp
  have rb: "readBody [] 0 (chunks forgedRequest) = Some ''ringing''"
    by (simp add: forgedRequest_def MAX_BODY_SIZE_def)
  have nv: "\<not> validateWebhookSignature exampleTwilio (config exampleOptions) ''forged''
          (publicUrl exampleOptions @ reqUrl forgedRequest)
          (parseWebhookBody exampleTwilio ''ringing'')"
    by (simp add: exampleTwilio_def)
  from h ne rb nv have prem:
    "signatureHeader forgedRequest = Some ''forged'' \<and> ''forged'' \<noteq> [] \<and>
     readBody [] 0 (chunks forgedRequest) = Some ''ringing'' \<and>
     \<not> validateWebhookSignature exampleTwilio (config exampleOptions) ''forged''
          (publicUrl exampleOptions @ reqUrl forgedRequest)
          (parseWebhookBody exampleTwilio ''ringing'')"
    by (intro conjI)
  note t = webhook_signature_checked
             [of forgedRequest "''forged''" "''ringing''" exampleTwilio exampleOptions exampleServer
                 ReceivedJson]
  note rej = t[THEN conjunct1, THEN mp, OF prem]
  have g: "signatureHeader inProgressRequest = Some ''good''" by (simp add: inProgressRequest_def)
  have ans: "HttpResponse 200 ReceivedJson \<in>
        set (snd (handleTwilioStatus exampleOptions exampleTwilio exampleServer inProgressRequest))"
    by (simp add: handleTwilioStatus_def Let_def inProgressRequest_def MAX_BODY_SIZE_def
                  exampleTwilio_def exampleOptions_def exampleServer_def mapGet_def)
  from g ans have prem2:
    "signatureHeader inProgressRequest = Some ''good'' \<and> ''good'' \<noteq> [] \<and>
      (HttpResponse 200 ReceivedJson \<in>
         set (snd (handleTwilioVoice exampleOptions exampleTwilio exampleServer inProgressRequest)) \<or>
       HttpResponse 200 ReceivedJson \<in>
         set (snd (handleTwilioStatus exampleOptions exampleTwilio exampleServer inProgressRequest)) \<or>
       sessionCalls (snd (handleTwilioStatus exampleOptions exampleTwilio exampleServer
         inProgressRequest)) \<noteq> [])"
    by simp
  note u = webhook_signature_checked
             [of inProgressRequest "''good''" "''ringing''" exampleTwilio exampleOptions exampleServer
                 ReceivedJson]
  from u[THEN conjunct2, THEN conjunct1, THEN mp, OF prem2]
  obtain body where body: "readBody [] 0 (chunks inProgressRequest) = Some body"
    and valid: "validateWebhookSignature exampleTwilio (config exampleOptions) ''good''
             (publicUrl exampleOptions @ reqUrl inProgressRequest)
             (parseWebhookBody exampleTwilio body)"
    by (elim exE conjE)
  from body have "body = ''in-progress''"
    by (simp add: inProgressRequest_def MAX_BODY_SIZE_def)
  with valid have ok: "validateWebhookSignature exampleTwilio (config exampleOptions) ''good''
          (publicUrl exampleOptions @ reqUrl inProgressRequest)
          (parseWebhookBody exampleTwilio ''in-progress'')"
    by simp
  show ?thesis
    apply (intro conjI)
            apply (fact h)
           apply (fact ne)
          apply (fact rb)
         apply (fact nv)
        apply (fact rej[THEN conjunct2, THEN conjunct1])
       apply (fact rej[THEN conjunct1])
      apply (fact g)
     apply (fact ans)
    apply (fact ok)
    done
qed

text \<open>
  A status webhook without any signature header, on a server whose validator accepts no
  signature: the request is not answered 403; its payload is used, a session is told
  that the call is ringing, the control clients are told, and the answer is 200. The
  voice webhook without a signature is answered with the call instructions.
\<close>

theorem webhook_unsigned_counterexample:
  "signatureHeader unsignedRequest = None
   \<and> handleTwilioStatus exampleOptions rejectingTwilio exampleServer unsignedRequest =
       (exampleServer,
        [SessionUpdateStatus exampleSession ''ringing'',
         WsSend 1 (CallRinging ''c1''),
         HttpResponse 200 ReceivedJson])
   \<and> handleTwilioVoice exampleOptions rejectingTwilio exampleServer unsignedRequest =
       (exampleServer, [HttpResponse 200 (Xml ''<Stream>c1</Stream>'')])"
  by (simp add: handleTwilioStatus_def handleTwilioVoice_def Let_def unsignedRequest_def
                MAX_BODY_SIZE_def rejectingTwilio_def exampleTwilio_def exampleOptions_def
                exampleServer_def exampleSession_def mapGet_def mapHas_def broadcastToControl_def)

subsection \<open>The control plane\<close>

text \<open>
  A \<open>speak\<close> message for a call identifier that is not in the table: the error reply
  goes to the socket the message came from and to no other, and nothing else happens.
\<close>

lemma speak_unknown_call:
  assumes "mapGet (sessions s) cid = None"
  shows "controlOnMessage api env settled s w (Inr (MsgSpeak cid text)) =
           (s, [WsSend w (ErrorMessage (Some cid) ''Call not found'')])"
    and "w' \<noteq> w \<Longrightarrow>
           received w' (snd (controlOnMessage api env settled s w (Inr (MsgSpeak cid text)))) = []"
  using assms by (simp_all add: controlOnMessage_def handleControlMessage_def)

lemma hangup_unknown_call:
  assumes "mapGet (sessions s) cid = None"
  shows "controlOnMessage api env settled s w (Inr (MsgHangup cid)) = (s, [])"
  using assms by (simp add: controlOnMessage_def handleControlMessage_def)

text \<open>
  C3. On a server whose table has the one call \<open>c1\<close>, the control client 1 sends
  \<open>hangup\<close> for the unknown call \<open>nope\<close>: the server does nothing, no reply is sent to
  client 1 or to anyone. The same client sending \<open>speak\<close> for \<open>nope\<close> is answered with
  the error "Call not found" on its own socket.
\<close>

theorem hangup_unknown_call_no_reply:
  "mapGet (sessions exampleServer) ''nope'' = None
   \<and> controlOnMessage exampleTwilio exampleEnv None exampleServer 1 (Inr (MsgHangup ''nope''))
       = (exampleServer, [])
   \<and> received 1 (snd (controlOnMessage exampleTwilio exampleEnv None exampleServer 1
         (Inr (MsgHangup ''nope'')))) = []
   \<and> controlOnMessage exampleTwilio exampleEnv None exampleServer 1 (Inr (MsgSpeak ''nope'' ''hi''))
       = (exampleServer, [WsSend 1 (ErrorMessage (Some ''nope'') ''Call not found'')])"
  by (simp add: controlOnMessage_def handleControlMessage_def mapGet_def exampleServer_def)

subsection \<open>The media plane\<close>

lemma mediaOnMessage_initialized:
  "mediaOnMessage s w True data =
     (True, case data of Unparseable \<Rightarrow> [Console ERROR ''[Media] Error parsing message:'']
                       | MediaMessage event cid \<Rightarrow> [])"
  by (simp add: mediaOnMessage_def split: media_message.splits)

lemma mediaOnMessage_init_count:
  "length (filter isMediaInit (snd (mediaOnMessage s w b data))) =
     (if fst (mediaOnMessage s w b data) \<and> \<not> b then 1 else 0)"
  by (cases b)
     (auto simp: mediaOnMessage_def Let_def split: media_message.splits option.splits)

lemma mediaConnection_init_count:
  "length (filter isMediaInit (mediaConnection w b msgs)) \<le> (if b then 0 else 1)"
proof (induction msgs arbitrary: b)
  case Nil
  then show ?case by simp
next
  case (Cons m msgs)
  obtain s data where m: "m = (s, data)" by (cases m)
  obtain b' effs where step: "mediaOnMessage s w b data = (b', effs)"
    by (cases "mediaOnMessage s w b data")
  from mediaOnMessage_init_count[of s w b data] step
  have here: "length (filter isMediaInit effs) = (if b' \<and> \<not> b then 1 else 0)" by simp
  have rest: "length (filter isMediaInit (mediaConnection w b' msgs)) \<le> (if b' then 0 else 1)"
    by (rule Cons.IH)
  have keep: "b \<longrightarrow> b'"
    using step mediaOnMessage_initialized[of s w data] by auto
  from here rest keep show ?case
    by (auto simp: m step split: if_splits)
qed

text \<open>
  C4, as the code has it. The first "start" message of a media connection either has no
  call identifier (absent, or the empty string), or has one that is not in the session
  table. In the first case the socket is closed with status 1008 and the reason
  "Missing callId", in the second with the same status 1008 and the reason
  "Call not found": the two cases differ in the reason and not in the status code. In
  both cases the listener calls no method of any session, and the connection is still
  not handed over.
\<close>

theorem media_handshake_rejected:
  "(\<not> truthy cid \<longrightarrow>
      mediaOnMessage s w False (MediaMessage (Some ''start'') cid) =
        (False,
         [Console LOG (''[Media] Received start event, callId: '' @
            (case cid of None \<Rightarrow> ''undefined'' | Some c \<Rightarrow> c)),
          Console ERROR ''[Media] No callId in start event customParameters'',
          WsClose w 1008 ''Missing callId''])
      \<and> closeCodes (snd (mediaOnMessage s w False (MediaMessage (Some ''start'') cid))) = [1008]
      \<and> closeReasons (snd (mediaOnMessage s w False (MediaMessage (Some ''start'') cid)))
           = [''Missing callId'']
      \<and> sessionCalls (snd (mediaOnMessage s w False (MediaMessage (Some ''start'') cid))) = [])
   \<and> (c \<noteq> [] \<and> mapGet (sessions s) c = None \<longrightarrow>
      mediaOnMessage s w False (MediaMessage (Some ''start'') (Some c)) =
        (False,
         [Console LOG (''[Media] Received start event, callId: '' @ c),
          Console ERROR (''[Media] No session found for call '' @ c),
          WsClose w 1008 ''Call not found''])
      \<and> closeCodes (snd (mediaOnMessage s w False (MediaMessage (Some ''start'') (Some c)))) = [1008]
      \<and> closeReasons (snd (mediaOnMessage s w False (MediaMessage (Some ''start'') (Some c))))
           = [''Call not found'']
      \<and> sessionCalls (snd (mediaOnMessage s w False (MediaMessage (Some ''start'') (Some c)))) = [])"
  by (simp add: mediaOnMessage_def Let_def sessionCalls_def List.map_filter_simps)

theorem media_handshake_rejected_witness:
  "\<not> truthy None
   \<and> closeCodes (snd (mediaOnMessage exampleServer 7 False (MediaMessage (Some ''start'') None)))
       = [1008]
   \<and> closeReasons (snd (mediaOnMessage exampleServer 7 False (MediaMessage (Some ''start'') None)))
       = [''Missing callId'']
   \<and> ''nope'' \<noteq> [] \<and> mapGet (sessions exampleServer) ''nope'' = None
   \<and> closeCodes (snd (mediaOnMessage exampleServer 7 False
         (MediaMessage (Some ''start'') (Some ''nope'')))) = [1008]
   \<and> closeReasons (snd (mediaOnMessage exampleServer 7 False
         (MediaMessage (Some ''start'') (Some ''nope'')))) = [''Call not found'']
   \<and> sessionCalls (snd (mediaOnMessage exampleServer 7 False
         (MediaMessage (Some ''start'') (Some ''nope'')))) = []"
proof -
  have a: "\<not> truthy None" by simp
  have b1: "''nope'' \<noteq> []" by simp
  have b2: "mapGet (sessions exampleServer) ''nope'' = None"
    by (simp add: mapGet_def exampleServer_def)
  from b1 b2 have b: "''nope'' \<noteq> [] \<and> mapGet (sessions exampleServer) ''nope'' = None" ..
  note t = media_handshake_rejected[of None exampleServer 7 "''nope''"]
  note m = t[THEN conjunct1, THEN mp, OF a]
  note u = t[THEN conjunct2, THEN mp, OF b]
  show ?thesis
    apply (intro conjI)
           apply (fact a)
          apply (fact m[THEN conjunct2, THEN conjunct1])
         apply (fact m[THEN conjunct2, THEN conjunct2, THEN conjunct1])
        apply (fact b1)
       apply (fact b2)
      apply (fact u[THEN conjunct2, THEN conjunct1])
     apply (fact u[THEN conjunct2, THEN conjunct2, THEN conjunct1])
    apply (fact u[THEN conjunct2, THEN conjunct2, THEN conjunct2])
    done
qed

text \<open>
  A start message without a call identifier and a start message with an identifier that
  is in no table entry are closed with one and the same status code.
\<close>

theorem media_close_codes_counterexample:
  "closeCodes (snd (mediaOnMessage exampleServer 7 False (MediaMessage (Some ''start'') None)))
     = closeCodes (snd (mediaOnMessage exampleServer 7 False
         (MediaMessage (Some ''start'') (Some ''nope''))))
   \<and> closeCodes (snd (mediaOnMessage exampleServer 7 False (MediaMessage (Some ''start'') None)))
       = [1008]
   \<and> mapGet (sessions exampleServer) ''nope'' = None"
  by (simp add: mediaOnMessage_def Let_def mapGet_def exampleServer_def)

text \<open>
  C7. On one media connection, whatever messages arrive and whatever the server state is
  when each arrives, the socket is handed to \<open>initializeMediaStream\<close> at most once. The
  message that hands it over sets \<open>sessionInitialized\<close>; from then on a message with an
  event, "start" included, does nothing at all, and no later message of the connection
  hands the socket over again.
\<close>

theorem media_stream_initialized_once:
  "length (filter isMediaInit (handleMediaStreamConnection w msgs)) \<le> 1
   \<and> mediaOnMessage s w True (MediaMessage event cid) = (True, [])
   \<and> (list_ex isMediaInit (snd (mediaOnMessage s w b data)) \<longrightarrow>
        fst (mediaOnMessage s w b data))
   \<and> \<not> list_ex isMediaInit (mediaConnection w True msgs)"
proof (intro conjI impI)
  show "length (filter isMediaInit (handleMediaStreamConnection w msgs)) \<le> 1"
    using mediaConnection_init_count[of w False msgs]
    by (simp add: handleMediaStreamConnection_def)
  show "mediaOnMessage s w True (MediaMessage event cid) = (True, [])"
    by (simp add: mediaOnMessage_initialized)
  show "\<not> list_ex isMediaInit (mediaConnection w True msgs)"
    using mediaConnection_init_count[of w True msgs]
    by (simp add: list_ex_iff filter_empty_conv)
  assume "list_ex isMediaInit (snd (mediaOnMessage s w b data))"
  then have "length (filter isMediaInit (snd (mediaOnMessage s w b data))) \<noteq> 0"
    by (simp add: list_ex_iff filter_empty_conv)
  with mediaOnMessage_init_count[of s w b data] show "fst (mediaOnMessage s w b data)"
    by (simp split: if_splits)
qed

theorem media_stream_initialized_once_witness:
  "list_ex isMediaInit (snd (mediaOnMessage exampleServer 7 False
      (MediaMessage (Some ''start'') (Some ''c1''))))
   \<and> fst (mediaOnMessage exampleServer 7 False (MediaMessage (Some ''start'') (Some ''c1'')))
   \<and> mediaOnMessage exampleServer 7 True (MediaMessage (Some ''start'') (Some ''c1'')) = (True, [])
   \<and> length (filter isMediaInit (handleMediaStreamConnection 7
        [(exampleServer, MediaMessage (Some ''start'') (Some ''c1'')),
         (exampleServer, MediaMessage (Some ''start'') (Some ''c1''))])) = 1"
proof -
  have handed: "list_ex isMediaInit (snd (mediaOnMessage exampleServer 7 False
      (MediaMessage (Some ''start'') (Some ''c1''))))"
    by (simp add: mediaOnMessage_def Let_def mapGet_def exampleServer_def)
  note t = media_stream_initialized_once
             [of 7 "[(exampleServer, MediaMessage (Some ''start'') (Some ''c1'')),
                     (exampleServer, MediaMessage (Some ''start'') (Some ''c1''))]"
                 exampleServer "Some ''start''" "Some ''c1''" False
                 "MediaMessage (Some ''start'') (Some ''c1'')"]
  note flag = t[THEN conjunct2, THEN conjunct2, THEN conjunct1, THEN mp, OF handed]
  note second = t[THEN conjunct2, THEN conjunct1]
  have "length (filter isMediaInit (handleMediaStreamConnection 7
        [(exampleServer, MediaMessage (Some ''start'') (Some ''c1'')),
         (exampleServer, MediaMessage (Some ''start'') (Some ''c1''))])) \<ge> 1"
    by (simp add: handleMediaStreamConnection_def mediaOnMessage_def Let_def mapGet_def
                  exampleServer_def)
  with t[THEN conjunct1] have once: "length (filter isMediaInit (handleMediaStreamConnection 7
        [(exampleServer, MediaMessage (Some ''start'') (Some ''c1'')),
         (exampleServer, MediaMessage (Some ''start'') (Some ''c1''))])) = 1"
    by (rule antisym)
  show ?thesis
    apply (intro conjI)
       apply (fact handed)
      apply (fact flag)
     apply (fact second)
    apply (fact once)
    done
qed

section \<open>Properties of the call session\<close>

lemma endedEvents_append: "endedEvents (xs @ ys) = endedEvents xs + endedEvents ys"
  by (simp add: endedEvents_def)

lemma hangup_ended:
  "endedEvents (snd (hangup cs)) =
     (if status (fst (hangup cs)) = Ended \<and> status cs \<noteq> Ended then 1 else 0)"
proof (cases "status cs = Ended")
  case True
  then show ?thesis by (simp add: hangup_def endedEvents_def)
next
  case False
  then show ?thesis by (simp add: hangup_def reachEnded_def endedEvents_def)
qed

lemma updateStatus_done: "status cs = Ended \<Longrightarrow> updateStatus st cs = (cs, [])"
  by (simp add: updateStatus_def)

lemma updateStatus_live:
  "status cs \<noteq> Ended \<Longrightarrow>
   endedEvents (snd (updateStatus st cs)) =
     (if status (fst (updateStatus st cs)) = Ended then 1 else 0)"
  by (simp add: updateStatus_def reachEnded_def endedEvents_def)

lemma updateStatus_ended:
  "endedEvents (snd (updateStatus st cs)) =
     (if status (fst (updateStatus st cs)) = Ended \<and> status cs \<noteq> Ended then 1 else 0)"
proof (cases "status cs = Ended")
  case True
  then show ?thesis by (simp add: updateStatus_done endedEvents_def)
next
  case False
  then show ?thesis by (simp add: updateStatus_live)
qed

lemma initializeMediaStream_ended:
  "endedEvents (snd (initializeMediaStream cs)) = 0
   \<and> (status (fst (initializeMediaStream cs)) = Ended) = (status cs = Ended)"
  by (cases "status cs = Ended") (simp_all add: initializeMediaStream_def endedEvents_def)

lemma setCallSid_ended:
  "endedEvents (snd (setCallSid sid cs)) = 0
   \<and> (status (fst (setCallSid sid cs)) = Ended) = (status cs = Ended)"
  by (cases "status cs = Created") (simp_all add: setCallSid_def endedEvents_def)

lemma sessionStep_ended:
  "endedEvents (snd (sessionStep c cs)) =
     (if status (fst (sessionStep c cs)) = Ended \<and> status cs \<noteq> Ended then 1 else 0)"
proof (cases c)
  case CallHangup
  then show ?thesis by (simp add: hangup_ended)
next
  case (CallUpdateStatus st)
  then show ?thesis by (simp add: updateStatus_ended)
next
  case CallInitializeMediaStream
  then show ?thesis by (simp add: initializeMediaStream_ended)
next
  case (CallSetCallSid sid)
  then show ?thesis by (simp add: setCallSid_ended)
next
  case (CallSpeak words)
  then show ?thesis by (simp add: speak_def endedEvents_def)
qed

lemma sessionStep_absorbing: "status cs = Ended \<Longrightarrow> status (fst (sessionStep c cs)) = Ended"
  by (cases c)
     (simp_all add: hangup_def updateStatus_done initializeMediaStream_ended setCallSid_ended
                    speak_def)

lemma sessionRun_absorbing: "status cs = Ended \<Longrightarrow> status (fst (sessionRun cs calls)) = Ended"
proof (induction calls arbitrary: cs)
  case Nil
  then show ?case by simp
next
  case (Cons c calls)
  obtain cs' out where step: "sessionStep c cs = (cs', out)" by (cases "sessionStep c cs")
  obtain cs'' out' where run: "sessionRun cs' calls = (cs'', out')" by (cases "sessionRun cs' calls")
  from sessionStep_absorbing[OF Cons.prems, of c] step have "status cs' = Ended" by simp
  from Cons.IH[OF this] run show ?case by (simp add: step)
qed

lemma sessionRun_ended:
  "endedEvents (snd (sessionRun cs calls)) =
     (if status (fst (sessionRun cs calls)) = Ended \<and> status cs \<noteq> Ended then 1 else 0)"
proof (induction calls arbitrary: cs)
  case Nil
  then show ?case by (simp add: endedEvents_def)
next
  case (Cons c calls)
  obtain cs' out where step: "sessionStep c cs = (cs', out)" by (cases "sessionStep c cs")
  obtain cs'' out' where run: "sessionRun cs' calls = (cs'', out')" by (cases "sessionRun cs' calls")
  from sessionStep_ended[of c cs] step
  have here: "endedEvents out = (if status cs' = Ended \<and> status cs \<noteq> Ended then 1 else 0)"
    by simp
  from Cons.IH[of cs'] run
  have rest: "endedEvents out' = (if status cs'' = Ended \<and> status cs' \<noteq> Ended then 1 else 0)"
    by simp
  from sessionRun_absorbing[of cs' calls] run
  have stay: "status cs' = Ended \<Longrightarrow> status cs'' = Ended" by simp
  from sessionStep_absorbing[of cs c] step
  have stay0: "status cs = Ended \<Longrightarrow> status cs' = Ended" by simp
  have total: "endedEvents out + endedEvents out' =
                 (if status cs'' = Ended \<and> status cs \<noteq> Ended then 1 else 0)"
  proof (cases "status cs = Ended")
    case True
    from stay0[OF True] have b: "status cs' = Ended" .
    from stay[OF b] have c: "status cs'' = Ended" .
    from True b c show ?thesis by (simp add: here rest)
  next
    case False
    show ?thesis
    proof (cases "status cs' = Ended")
      case True
      from stay[OF True] have c: "status cs'' = Ended" .
      from False True c show ?thesis by (simp add: here rest)
    next
      case b: False
      show ?thesis
      proof (cases "status cs'' = Ended")
        case True
        from False b True show ?thesis by (simp add: here rest)
      next
        case c: False
        from False b c show ?thesis by (simp add: here rest)
      qed
    qed
  qed
  then show ?case by (simp add: step run endedEvents_append)
qed

lemma hangup_status: "status (fst (hangup cs)) = Ended"
  by (simp add: hangup_def reachEnded_def)

lemma sessionRun_hangup:
  "CallHangup \<in> set calls \<Longrightarrow> status (fst (sessionRun cs calls)) = Ended"
proof (induction calls arbitrary: cs)
  case Nil
  then show ?case by simp
next
  case (Cons c calls)
  obtain cs' out where step: "sessionStep c cs = (cs', out)" by (cases "sessionStep c cs")
  obtain cs'' out' where run: "sessionRun cs' calls = (cs'', out')" by (cases "sessionRun cs' calls")
  show ?case
  proof (cases "c = CallHangup")
    case True
    with step have "status cs' = Ended" using hangup_status[of cs] by simp
    from sessionRun_absorbing[OF this, of calls] run show ?thesis by (simp add: step)
  next
    case False
    with Cons.prems have "CallHangup \<in> set calls" by simp
    from Cons.IH[OF this, of cs'] run show ?thesis by (simp add: step)
  qed
qed

text \<open>
  C6. \<open>hangup\<close> on a session that is not ended ends it and emits one \<open>ended\<close> event; a
  second \<open>hangup\<close> finds the session ended, changes nothing and does nothing: no teardown,
  no instruction to the provider, no event. On a session that is already ended the first
  \<open>hangup\<close> does nothing either. In any history of calls on a new session the \<open>ended\<close>
  event is emitted at most once, and exactly once if \<open>hangup\<close> is called, once, twice or
  more often.
\<close>

theorem hangup_idempotent:
  "hangup (fst (hangup cs)) = (fst (hangup cs), [])
   \<and> (status cs = Ended \<longrightarrow> hangup cs = (cs, []))
   \<and> (status cs \<noteq> Ended \<longrightarrow>
        endedEvents (snd (hangup cs)) = 1
        \<and> endedEvents (snd (hangup cs) @ snd (hangup (fst (hangup cs)))) = 1
        \<and> BridgeTornDown \<in> set (snd (hangup cs))
        \<and> ProviderHangup (callSid cs) \<in> set (snd (hangup cs)))
   \<and> endedEvents (snd (sessionRun newSession calls)) \<le> 1
   \<and> (CallHangup \<in> set calls \<longrightarrow> endedEvents (snd (sessionRun newSession calls)) = 1)"
proof (intro conjI impI)
  show "hangup (fst (hangup cs)) = (fst (hangup cs), [])"
    by (simp add: hangup_def reachEnded_def)
  show "endedEvents (snd (sessionRun newSession calls)) \<le> 1"
    by (simp add: sessionRun_ended)
next
  assume "status cs = Ended"
  then show "hangup cs = (cs, [])" by (simp add: hangup_def)
next
  assume a: "status cs \<noteq> Ended"
  then show "endedEvents (snd (hangup cs)) = 1"
    by (simp add: hangup_def reachEnded_def endedEvents_def)
  from a show "endedEvents (snd (hangup cs) @ snd (hangup (fst (hangup cs)))) = 1"
    by (simp add: hangup_def reachEnded_def endedEvents_def)
  from a show "BridgeTornDown \<in> set (snd (hangup cs))"
    by (simp add: hangup_def reachEnded_def)
  from a show "ProviderHangup (callSid cs) \<in> set (snd (hangup cs))"
    by (simp add: hangup_def reachEnded_def)
next
  assume "CallHangup \<in> set calls"
  then have "status (fst (sessionRun newSession calls)) = Ended" by (rule sessionRun_hangup)
  then show "endedEvents (snd (sessionRun newSession calls)) = 1"
    by (simp add: sessionRun_ended newSession_def)
qed

theorem hangup_idempotent_witness:
  "status newSession \<noteq> Ended
   \<and> endedEvents (snd (hangup newSession) @ snd (hangup (fst (hangup newSession)))) = 1
   \<and> status (fst (hangup newSession)) = Ended
   \<and> hangup (fst (hangup newSession)) = (fst (hangup newSession), [])
   \<and> CallHangup \<in> set [CallSetCallSid ''CA1'', CallHangup, CallHangup]
   \<and> endedEvents (snd (sessionRun newSession [CallSetCallSid ''CA1'', CallHangup, CallHangup])) = 1"
proof -
  have n: "status newSession \<noteq> Ended" by (simp add: newSession_def)
  have m: "CallHangup \<in> set [CallSetCallSid ''CA1'', CallHangup, CallHangup]" by simp
  have e: "status (fst (hangup newSession)) = Ended" by (simp add: hangup_def reachEnded_def)
  note t = hangup_idempotent
             [where cs = newSession and calls = "[CallSetCallSid ''CA1'', CallHangup, CallHangup]"]
  note live = t[THEN conjunct2, THEN conjunct2, THEN conjunct1, THEN mp, OF n]
  note total = t[THEN conjunct2, THEN conjunct2, THEN conjunct2, THEN conjunct2, THEN mp, OF m]
  note u = hangup_idempotent
             [where cs = "fst (hangup newSession)" and calls = "[]"]
  note again = u[THEN conjunct2, THEN conjunct1, THEN mp, OF e]
  show ?thesis
    apply (intro conjI)
         apply (fact n)
        apply (fact live[THEN conjunct2, THEN conjunct1])
       apply (fact e)
      apply (fact again)
     apply (fact m)
    apply (fact total)
    done
qed

subsection \<open>Status webhooks and the connected status\<close>

lemma updateStatus_not_connecting:
  "status (fst (updateStatus st cs)) = Connected \<Longrightarrow> status cs = Connected"
  by (cases "status cs = Ended") (simp_all add: updateStatus_def reachEnded_def split: if_splits)

lemma hangup_not_connecting:
  "status (fst (hangup cs)) = Connected \<Longrightarrow> status cs = Connected"
  by (cases "status cs = Ended") (simp_all add: hangup_def reachEnded_def)

lemma setCallSid_not_connecting:
  "status (fst (setCallSid sid cs)) = Connected \<Longrightarrow> status cs = Connected"
  by (cases "status cs = Created") (simp_all add: setCallSid_def)

lemma sessionStep_connects:
  assumes "status (fst (sessionStep call cs)) = Connected" and "status cs \<noteq> Connected"
  shows "call = CallInitializeMediaStream"
proof (cases call)
  case CallHangup
  with assms hangup_not_connecting[of cs] show ?thesis by simp
next
  case (CallUpdateStatus st)
  with assms updateStatus_not_connecting[of st cs] show ?thesis by simp
next
  case CallInitializeMediaStream
  then show ?thesis .
next
  case (CallSetCallSid sid)
  with assms setCallSid_not_connecting[of sid cs] show ?thesis by simp
next
  case (CallSpeak words)
  with assms show ?thesis by (simp add: speak_def)
qed

lemma handleTwilioStatus_calls:
  "sessionCalls (snd (handleTwilioStatus opts api s req)) = [] \<or>
   (\<exists>st. (st = ''ringing'' \<or> st = ''completed'' \<or> st = ''busy'' \<or> st = ''failed'' \<or>
          st = ''no-answer'') \<and>
         sessionCalls (snd (handleTwilioStatus opts api s req)) = [CallUpdateStatus st])"
proof (cases "readBody [] 0 (chunks req)")
  case None
  then show ?thesis
    by (simp add: handleTwilioStatus_body sessionCalls_Nil sessionCalls_Cons)
next
  case (Some body)
  then show ?thesis
    by (simp add: handleTwilioStatus_def Let_def sessionCalls_append sessionCalls_Cons
                  sessionCalls_Nil sessionCalls_broadcast
             split: option.splits)
qed

lemma handleTwilioStatus_in_progress:
  assumes "readBody [] 0 (chunks req) = Some body"
    and "map_of (parseWebhookBody api body) ''CallStatus'' = Some ''in-progress''"
  shows "sessionCalls (snd (handleTwilioStatus opts api s req)) = []"
    and "\<not> list_ex isSend (snd (handleTwilioStatus opts api s req))"
  using assms
  by (simp_all add: handleTwilioStatus_def Let_def sessionCalls_append sessionCalls_Cons
                    sessionCalls_Nil
               split: option.splits)

text \<open>
  C8. A status webhook that reports "in-progress" makes the status handler call no
  method of any session and send nothing to the control clients, so it cannot move a
  session to \<open>connected\<close>; the handler never writes the session table. Whatever a status
  webhook reports, the only call the handler makes on a session is \<open>updateStatus\<close> with
  one of "ringing", "completed", "busy", "failed", "no-answer", and such a call leaves a
  session that is not connected not connected. Among all the calls the server makes on a
  session, the one that moves it to \<open>connected\<close> is \<open>initializeMediaStream\<close>, the attach of
  the media bridge, which does so for a live session on its first call.
\<close>

theorem in_progress_does_not_connect:
  "(readBody [] 0 (chunks req) = Some body \<and>
    map_of (parseWebhookBody api body) ''CallStatus'' = Some ''in-progress'' \<longrightarrow>
      sessionCalls (snd (handleTwilioStatus opts api s req)) = []
      \<and> \<not> list_ex isSend (snd (handleTwilioStatus opts api s req))
      \<and> sessionRun cs (sessionCalls (snd (handleTwilioStatus opts api s req))) = (cs, []))
   \<and> fst (handleTwilioStatus opts api s req) = s
   \<and> (\<forall>call \<in> set (sessionCalls (snd (handleTwilioStatus opts api s req))).
        \<exists>st. call = CallUpdateStatus st \<and>
          (st = ''ringing'' \<or> st = ''completed'' \<or> st = ''busy'' \<or> st = ''failed'' \<or>
           st = ''no-answer''))
   \<and> (status (fst (sessionRun cs (sessionCalls (snd (handleTwilioStatus opts api s req)))))
         = Connected \<longrightarrow> status cs = Connected)
   \<and> (status (fst (sessionStep call cs)) = Connected \<and> status cs \<noteq> Connected \<longrightarrow>
        call = CallInitializeMediaStream)
   \<and> (\<not> mediaInitialized cs \<and> status cs \<noteq> Ended \<longrightarrow>
        status (fst (sessionStep CallInitializeMediaStream cs)) = Connected)"
proof (intro conjI impI)
  assume a: "readBody [] 0 (chunks req) = Some body \<and>
    map_of (parseWebhookBody api body) ''CallStatus'' = Some ''in-progress''"
  from a have a1: "readBody [] 0 (chunks req) = Some body" by (rule conjunct1)
  from a have a2: "map_of (parseWebhookBody api body) ''CallStatus'' = Some ''in-progress''"
    by (rule conjunct2)
  have none: "sessionCalls (snd (handleTwilioStatus opts api s req)) = []"
    by (rule handleTwilioStatus_in_progress(1)[OF a1 a2])
  show "sessionCalls (snd (handleTwilioStatus opts api s req)) = []" by (rule none)
  show "sessionRun cs (sessionCalls (snd (handleTwilioStatus opts api s req))) = (cs, [])"
    by (simp add: none)
  show "\<not> list_ex isSend (snd (handleTwilioStatus opts api s req))"
    by (rule handleTwilioStatus_in_progress(2)[OF a1 a2])
next
  show "fst (handleTwilioStatus opts api s req) = s" by (rule handleTwilioStatus_state)
next
  have calls: "sessionCalls (snd (handleTwilioStatus opts api s req)) = [] \<or>
     (\<exists>st. (st = ''ringing'' \<or> st = ''completed'' \<or> st = ''busy'' \<or> st = ''failed'' \<or>
            st = ''no-answer'') \<and>
           sessionCalls (snd (handleTwilioStatus opts api s req)) = [CallUpdateStatus st])"
    by (rule handleTwilioStatus_calls)
  show "\<forall>call \<in> set (sessionCalls (snd (handleTwilioStatus opts api s req))).
        \<exists>st. call = CallUpdateStatus st \<and>
          (st = ''ringing'' \<or> st = ''completed'' \<or> st = ''busy'' \<or> st = ''failed'' \<or>
           st = ''no-answer'')"
  proof (rule disjE[OF calls])
    assume "sessionCalls (snd (handleTwilioStatus opts api s req)) = []"
    then show ?thesis by simp
  next
    assume "\<exists>st. (st = ''ringing'' \<or> st = ''completed'' \<or> st = ''busy'' \<or> st = ''failed'' \<or>
            st = ''no-answer'') \<and>
           sessionCalls (snd (handleTwilioStatus opts api s req)) = [CallUpdateStatus st]"
    then obtain st where
      p: "st = ''ringing'' \<or> st = ''completed'' \<or> st = ''busy'' \<or> st = ''failed'' \<or>
          st = ''no-answer''"
      and b: "sessionCalls (snd (handleTwilioStatus opts api s req)) = [CallUpdateStatus st]"
      by (elim exE conjE)
    from p have "\<exists>st'. CallUpdateStatus st = CallUpdateStatus st' \<and>
          (st' = ''ringing'' \<or> st' = ''completed'' \<or> st' = ''busy'' \<or> st' = ''failed'' \<or>
           st' = ''no-answer'')"
      by (intro exI[of _ st] conjI refl)
    then show ?thesis by (simp add: b)
  qed
next
  assume c: "status (fst (sessionRun cs (sessionCalls (snd (handleTwilioStatus opts api s req)))))
         = Connected"
  have calls: "sessionCalls (snd (handleTwilioStatus opts api s req)) = [] \<or>
     (\<exists>st. (st = ''ringing'' \<or> st = ''completed'' \<or> st = ''busy'' \<or> st = ''failed'' \<or>
            st = ''no-answer'') \<and>
           sessionCalls (snd (handleTwilioStatus opts api s req)) = [CallUpdateStatus st])"
    by (rule handleTwilioStatus_calls)
  show "status cs = Connected"
  proof (rule disjE[OF calls])
    assume "sessionCalls (snd (handleTwilioStatus opts api s req)) = []"
    with c show ?thesis by simp
  next
    assume "\<exists>st. (st = ''ringing'' \<or> st = ''completed'' \<or> st = ''busy'' \<or> st = ''failed'' \<or>
            st = ''no-answer'') \<and>
           sessionCalls (snd (handleTwilioStatus opts api s req)) = [CallUpdateStatus st]"
    then obtain st where
      b: "sessionCalls (snd (handleTwilioStatus opts api s req)) = [CallUpdateStatus st]"
      by (elim exE conjE)
    with c have "status (fst (updateStatus st cs)) = Connected"
      by (simp split: prod.splits)
    then show ?thesis by (rule updateStatus_not_connecting)
  qed
next
  assume "status (fst (sessionStep call cs)) = Connected \<and> status cs \<noteq> Connected"
  then show "call = CallInitializeMediaStream"
    using sessionStep_connects[of call cs] by simp
next
  assume "\<not> mediaInitialized cs \<and> status cs \<noteq> Ended"
  then show "status (fst (sessionStep CallInitializeMediaStream cs)) = Connected"
    by (simp add: initializeMediaStream_def)
qed

theorem in_progress_does_not_connect_witness:
  "readBody [] 0 (chunks inProgressRequest) = Some ''in-progress''
   \<and> map_of (parseWebhookBody exampleTwilio ''in-progress'') ''CallStatus'' = Some ''in-progress''
   \<and> mapGet (sessions exampleServer) ''c1'' = Some exampleSession
   \<and> handleTwilioStatus exampleOptions exampleTwilio exampleServer inProgressRequest
       = (exampleServer, [HttpResponse 200 ReceivedJson])
   \<and> sessionCalls (snd (handleTwilioStatus exampleOptions exampleTwilio exampleServer
         inProgressRequest)) = []
   \<and> sessionRun newSession (sessionCalls (snd (handleTwilioStatus exampleOptions exampleTwilio
         exampleServer inProgressRequest))) = (newSession, [])
   \<and> \<not> mediaInitialized newSession \<and> status newSession \<noteq> Ended
   \<and> status (fst (sessionStep CallInitializeMediaStream newSession)) = Connected
   \<and> status newSession \<noteq> Connected
   \<and> CallInitializeMediaStream = CallInitializeMediaStream
   \<and> CallUpdateStatus ''ringing'' \<in> set (sessionCalls (snd (handleTwilioStatus exampleOptions
         exampleTwilio exampleServer ringingRequest)))
   \<and> (\<exists>st. CallUpdateStatus ''ringing'' = CallUpdateStatus st \<and>
          (st = ''ringing'' \<or> st = ''completed'' \<or> st = ''busy'' \<or> st = ''failed'' \<or>
           st = ''no-answer''))
   \<and> status (fst (sessionRun connectedSession (sessionCalls (snd (handleTwilioStatus
         exampleOptions exampleTwilio exampleServer inProgressRequest))))) = Connected
   \<and> status connectedSession = Connected"
proof -
  have rb: "readBody [] 0 (chunks inProgressRequest) = Some ''in-progress''"
    by (simp add: inProgressRequest_def MAX_BODY_SIZE_def)
  have st: "map_of (parseWebhookBody exampleTwilio ''in-progress'') ''CallStatus'' = Some ''in-progress''"
    by (simp add: exampleTwilio_def)
  have known: "mapGet (sessions exampleServer) ''c1'' = Some exampleSession"
    by (simp add: mapGet_def exampleServer_def)
  have whole: "handleTwilioStatus exampleOptions exampleTwilio exampleServer inProgressRequest
       = (exampleServer, [HttpResponse 200 ReceivedJson])"
    by (simp add: handleTwilioStatus_def Let_def inProgressRequest_def MAX_BODY_SIZE_def
                  exampleTwilio_def exampleOptions_def exampleServer_def mapGet_def)
  from rb st have prem: "readBody [] 0 (chunks inProgressRequest) = Some ''in-progress'' \<and>
    map_of (parseWebhookBody exampleTwilio ''in-progress'') ''CallStatus'' = Some ''in-progress''" ..
  have fresh: "\<not> mediaInitialized newSession \<and> status newSession \<noteq> Ended"
    by (simp add: newSession_def)
  have idle: "status newSession \<noteq> Connected" by (simp add: newSession_def)
  note t = in_progress_does_not_connect
             [where req = inProgressRequest and body = "''in-progress''" and api = exampleTwilio
                and opts = exampleOptions and s = exampleServer and cs = newSession
                and call = CallInitializeMediaStream]
  note quiet = t[THEN conjunct1, THEN mp, OF prem]
  note attach = t[THEN conjunct2, THEN conjunct2, THEN conjunct2, THEN conjunct2, THEN conjunct2,
                  THEN mp, OF fresh]
  from attach idle have moved:
    "status (fst (sessionStep CallInitializeMediaStream newSession)) = Connected \<and>
     status newSession \<noteq> Connected" ..
  note only = t[THEN conjunct2, THEN conjunct2, THEN conjunct2, THEN conjunct2, THEN conjunct1,
                THEN mp, OF moved]
  have ring: "CallUpdateStatus ''ringing'' \<in> set (sessionCalls (snd (handleTwilioStatus exampleOptions
         exampleTwilio exampleServer ringingRequest)))"
    by (simp add: handleTwilioStatus_def Let_def ringingRequest_def MAX_BODY_SIZE_def
                  exampleTwilio_def exampleOptions_def exampleServer_def mapGet_def
                  broadcastToControl_def sessionCalls_def List.map_filter_simps)
  note u = in_progress_does_not_connect
             [where req = ringingRequest and api = exampleTwilio
                and opts = exampleOptions and s = exampleServer]
  note allowed = bspec[OF u[THEN conjunct2, THEN conjunct2, THEN conjunct1] ring]
  have conn: "status connectedSession = Connected"
    by (simp add: connectedSession_def initializeMediaStream_def newSession_def)
  have stays: "status (fst (sessionRun connectedSession (sessionCalls (snd (handleTwilioStatus
         exampleOptions exampleTwilio exampleServer inProgressRequest))))) = Connected"
    by (simp add: whole sessionCalls_def List.map_filter_simps conn)
  note v = in_progress_does_not_connect
             [where req = inProgressRequest and api = exampleTwilio
                and opts = exampleOptions and s = exampleServer and cs = connectedSession]
  note was = v[THEN conjunct2, THEN conjunct2, THEN conjunct2, THEN conjunct1, THEN mp, OF stays]
  show ?thesis
    apply (intro conjI)
                 apply (fact rb)
                apply (fact st)
               apply (fact known)
              apply (fact whole)
             apply (fact quiet[THEN conjunct1])
            apply (fact quiet[THEN conjunct2, THEN conjunct2])
           apply (fact fresh[THEN conjunct1])
          apply (fact fresh[THEN conjunct2])
         apply (fact attach)
        apply (fact idle)
       apply (fact only)
      apply (fact ring)
     apply (fact allowed)
    apply (fact stays)
    apply (fact was)
    done
qed

end
